theory Spec2Isabelle
  imports Complex_Main
begin

section \<open>JavaScript numbers\<close>

text \<open>
  The program is TypeScript; every \<^verbatim>\<open>number\<close> is an IEEE double. The model keeps the
  special values a double can take (the two infinities and NaN), because a division by
  zero produces them and \<^verbatim>\<open>Math.min\<close>/\<^verbatim>\<open>Math.max\<close> propagate NaN. Finite values
  are idealised as reals: rounding, overflow and the sign of zero are not modelled (a zero
  divisor counts as \<open>+0\<close>, which is what a bounding rectangle's width or height is).
\<close>

datatype jsnum = Num real | PInf | NInf | NaN

instantiation jsnum :: "{plus, minus, times, inverse, uminus}"
begin

fun uminus_jsnum :: "jsnum \<Rightarrow> jsnum" where
  "uminus_jsnum (Num a) = Num (- a)"
| "uminus_jsnum PInf = NInf"
| "uminus_jsnum NInf = PInf"
| "uminus_jsnum NaN = NaN"

fun plus_jsnum :: "jsnum \<Rightarrow> jsnum \<Rightarrow> jsnum" where
  "plus_jsnum (Num a) (Num b) = Num (a + b)"
| "plus_jsnum NaN _ = NaN"
| "plus_jsnum _ NaN = NaN"
| "plus_jsnum PInf NInf = NaN"
| "plus_jsnum NInf PInf = NaN"
| "plus_jsnum PInf _ = PInf"
| "plus_jsnum _ PInf = PInf"
| "plus_jsnum NInf _ = NInf"
| "plus_jsnum _ NInf = NInf"

definition minus_jsnum :: "jsnum \<Rightarrow> jsnum \<Rightarrow> jsnum" where
  "minus_jsnum a b = a + (- b)"

fun times_jsnum :: "jsnum \<Rightarrow> jsnum \<Rightarrow> jsnum" where
  "times_jsnum (Num a) (Num b) = Num (a * b)"
| "times_jsnum NaN _ = NaN"
| "times_jsnum _ NaN = NaN"
| "times_jsnum PInf (Num b) = (if b = 0 then NaN else if 0 < b then PInf else NInf)"
| "times_jsnum NInf (Num b) = (if b = 0 then NaN else if 0 < b then NInf else PInf)"
| "times_jsnum (Num a) PInf = (if a = 0 then NaN else if 0 < a then PInf else NInf)"
| "times_jsnum (Num a) NInf = (if a = 0 then NaN else if 0 < a then NInf else PInf)"
| "times_jsnum PInf PInf = PInf"
| "times_jsnum NInf NInf = PInf"
| "times_jsnum PInf NInf = NInf"
| "times_jsnum NInf PInf = NInf"

fun divide_jsnum :: "jsnum \<Rightarrow> jsnum \<Rightarrow> jsnum" where
  "divide_jsnum (Num a) (Num b) =
     (if b = 0 then (if a = 0 then NaN else if 0 < a then PInf else NInf)
      else Num (a / b))"
| "divide_jsnum NaN _ = NaN"
| "divide_jsnum _ NaN = NaN"
| "divide_jsnum (Num a) PInf = Num 0"
| "divide_jsnum (Num a) NInf = Num 0"
| "divide_jsnum PInf (Num b) = (if 0 \<le> b then PInf else NInf)"
| "divide_jsnum NInf (Num b) = (if 0 \<le> b then NInf else PInf)"
| "divide_jsnum PInf PInf = NaN"
| "divide_jsnum PInf NInf = NaN"
| "divide_jsnum NInf PInf = NaN"
| "divide_jsnum NInf NInf = NaN"

definition inverse_jsnum :: "jsnum \<Rightarrow> jsnum" where
  "inverse_jsnum a = divide (Num 1) a"

instance ..

end

text \<open>The comparisons \<^verbatim>\<open><\<close> and \<^verbatim>\<open><=\<close>: false as soon as an operand is NaN.\<close>

fun js_le :: "jsnum \<Rightarrow> jsnum \<Rightarrow> bool" where
  "js_le NaN _ = False"
| "js_le _ NaN = False"
| "js_le (Num a) (Num b) = (a \<le> b)"
| "js_le NInf _ = True"
| "js_le _ PInf = True"
| "js_le _ NInf = False"
| "js_le PInf _ = False"

fun js_lt :: "jsnum \<Rightarrow> jsnum \<Rightarrow> bool" where
  "js_lt NaN _ = False"
| "js_lt _ NaN = False"
| "js_lt (Num a) (Num b) = (a < b)"
| "js_lt PInf _ = False"
| "js_lt _ NInf = False"
| "js_lt NInf _ = True"
| "js_lt _ PInf = True"

text \<open>\<^verbatim>\<open>Math.min\<close> and \<^verbatim>\<open>Math.max\<close> of two arguments: NaN if either is NaN.\<close>

fun Math_min :: "jsnum \<Rightarrow> jsnum \<Rightarrow> jsnum" where
  "Math_min NaN _ = NaN"
| "Math_min _ NaN = NaN"
| "Math_min a b = (if js_le a b then a else b)"

fun Math_max :: "jsnum \<Rightarrow> jsnum \<Rightarrow> jsnum" where
  "Math_max NaN _ = NaN"
| "Math_max _ NaN = NaN"
| "Math_max a b = (if js_le a b then b else a)"


section \<open>Session state of the application (App)\<close>

record js_file =
  file_name :: string
  file_type :: string

record position =
  pos_x :: jsnum
  pos_y :: jsnum

text \<open>The \<^verbatim>\<open>useState\<close> cells of \<^verbatim>\<open>App\<close>, with the initial values the source gives them.\<close>

record app_state =
  docFile :: "js_file option"  \<comment> \<open>the cell \<^verbatim>\<open>file\<close>\<close>
  signature :: "string option"
  isModalOpen :: bool
  isDownloading :: bool
  signatureSize :: jsnum
  signatureRotation :: jsnum
  signaturePosition :: position
  pageNum :: int

definition initial_app :: app_state where
  "initial_app =
     \<lparr>docFile = None, signature = None, isModalOpen = False, isDownloading = False,
      signatureSize = Num 150, signatureRotation = Num 0,
      signaturePosition = \<lparr>pos_x = Num 0.85, pos_y = Num 0.8\<rparr>, pageNum = 1\<rparr>"

definition handleFileSelect :: "js_file \<Rightarrow> app_state \<Rightarrow> app_state" where
  "handleFileSelect selectedFile s =
     s\<lparr>docFile := Some selectedFile, signature := None, pageNum := 1\<rparr>"

definition handleSaveSignature :: "string \<Rightarrow> app_state \<Rightarrow> app_state" where
  "handleSaveSignature signatureDataUrl s =
     s\<lparr>signature := Some signatureDataUrl, isModalOpen := False\<rparr>"

definition handleReset :: "app_state \<Rightarrow> app_state" where
  "handleReset s =
     s\<lparr>docFile := None, signature := None, isModalOpen := False,
       signatureSize := Num 150, signatureRotation := Num 0,
       signaturePosition := \<lparr>pos_x = Num 0.85, pos_y = Num 0.8\<rparr>, pageNum := 1\<rparr>"

text \<open>
  The callbacks \<^verbatim>\<open>App\<close> hands to \<^verbatim>\<open>DocumentViewer\<close> are the raw state setters:
  \<^verbatim>\<open>onSignatureSizeChange={setSignatureSize}\<close>, and likewise for rotation, position
  and page number. They store their argument as it is.
\<close>

definition onSignatureSizeChange :: "jsnum \<Rightarrow> app_state \<Rightarrow> app_state" where
  "onSignatureSizeChange sz s = s\<lparr>signatureSize := sz\<rparr>"


definition onSignaturePositionChange :: "position \<Rightarrow> app_state \<Rightarrow> app_state" where
  "onSignaturePositionChange p s = s\<lparr>signaturePosition := p\<rparr>"

definition onRemoveSignature :: "app_state \<Rightarrow> app_state" where
  "onRemoveSignature s = s\<lparr>signature := None\<rparr>"

definition onPageNumChange :: "int \<Rightarrow> app_state \<Rightarrow> app_state" where
  "onPageNumChange page s = s\<lparr>pageNum := page\<rparr>"

section \<open>The signature overlay (SignaturePreview)\<close>

text \<open>The constants of the viewer's module.\<close>

definition MIN_ZOOM :: jsnum where "MIN_ZOOM = Num 0.5"
definition MAX_ZOOM :: jsnum where "MAX_ZOOM = Num 3.0"
definition DEFAULT_ZOOM :: jsnum where "DEFAULT_ZOOM = Num 1.0"

definition MIN_SIG_SIZE :: jsnum where "MIN_SIG_SIZE = Num 50"
definition MAX_SIG_SIZE :: jsnum where "MAX_SIG_SIZE = Num 300"

text \<open>What \<^verbatim>\<open>getBoundingClientRect()\<close> returns, and the coordinates of a mouse event.\<close>

record dom_rect =
  rect_left :: real
  rect_top :: real
  rect_width :: real
  rect_height :: real

record mouse_event =
  clientX :: real
  clientY :: real

definition handleIncreaseSignatureSize :: "app_state \<Rightarrow> app_state" where
  "handleIncreaseSignatureSize s =
     onSignatureSizeChange (Math_min (signatureSize s + Num 10) MAX_SIG_SIZE) s"

definition handleDecreaseSignatureSize :: "app_state \<Rightarrow> app_state" where
  "handleDecreaseSignatureSize s =
     onSignatureSizeChange (Math_max (signatureSize s - Num 10) MIN_SIG_SIZE) s"





text \<open>
  The \<^verbatim>\<open>mousemove\<close> listener that \<^verbatim>\<open>handleDragMouseDown\<close> installs. The rectangle is
  that of the overlay's parent element, read once at mouse-down; with no parent the
  handler returns before installing anything.
\<close>

definition handleDragMouseMove ::
  "dom_rect option \<Rightarrow> mouse_event \<Rightarrow> app_state \<Rightarrow> app_state" where
  "handleDragMouseMove container moveEvent s =
     (case container of
        None \<Rightarrow> s
      | Some containerRect \<Rightarrow>
          (let x = Num (clientX moveEvent - rect_left containerRect);
               y = Num (clientY moveEvent - rect_top containerRect);
               relativeX = Math_max (Num 0) (Math_min (Num 1) (x / Num (rect_width containerRect)));
               relativeY = Math_max (Num 0) (Math_min (Num 1) (y / Num (rect_height containerRect)))
           in onSignaturePositionChange \<lparr>pos_x = relativeX, pos_y = relativeY\<rparr> s))"

text \<open>
  The gestures on the overlay that write the placement: a drag step, and the two size
  buttons.
\<close>

datatype placement_event =
  Drag "dom_rect option" mouse_event
| IncreaseSize
| DecreaseSize

fun placement_step :: "placement_event \<Rightarrow> app_state \<Rightarrow> app_state" where
  "placement_step (Drag container moveEvent) s = handleDragMouseMove container moveEvent s"
| "placement_step IncreaseSize s = handleIncreaseSignatureSize s"
| "placement_step DecreaseSize s = handleDecreaseSignatureSize s"

definition placement_run :: "placement_event list \<Rightarrow> app_state \<Rightarrow> app_state" where
  "placement_run es s = fold placement_step es s"

text \<open>The placement invariant of the data model, read with JavaScript's comparisons.\<close>

definition in_unit :: "jsnum \<Rightarrow> bool" where
  "in_unit v = (js_le (Num 0) v \<and> js_le v (Num 1))"

definition placement_inv :: "app_state \<Rightarrow> bool" where
  "placement_inv s =
     (in_unit (pos_x (signaturePosition s)) \<and> in_unit (pos_y (signaturePosition s)) \<and>
      js_le MIN_SIG_SIZE (signatureSize s) \<and> js_le (signatureSize s) MAX_SIG_SIZE)"

text \<open>A drag whose container rectangle, if any, has positive width and height.\<close>

fun nondegenerate :: "placement_event \<Rightarrow> bool" where
  "nondegenerate (Drag (Some r) _) = (0 < rect_width r \<and> 0 < rect_height r)"
| "nondegenerate _ = True"

section \<open>The page viewer (DocumentViewer)\<close>

text \<open>
  The viewer's own cells that the toolbar reads and writes; the page number is a cell of
  \<^verbatim>\<open>App\<close>, written through \<^verbatim>\<open>onPageNumChange\<close>.
\<close>

record viewer_state =
  numPages :: int
  zoomLevel :: jsnum

definition goToPreviousPage :: "app_state \<Rightarrow> app_state" where
  "goToPreviousPage s = onPageNumChange (max (pageNum s - 1) 1) s"

definition goToNextPage :: "viewer_state \<Rightarrow> app_state \<Rightarrow> app_state" where
  "goToNextPage v s = onPageNumChange (min (pageNum s + 1) (numPages v)) s"

definition handleZoomIn :: "viewer_state \<Rightarrow> viewer_state" where
  "handleZoomIn v = v\<lparr>zoomLevel := Math_min (zoomLevel v + Num 0.25) MAX_ZOOM\<rparr>"

definition handleZoomOut :: "viewer_state \<Rightarrow> viewer_state" where
  "handleZoomOut v = v\<lparr>zoomLevel := Math_max (zoomLevel v - Num 0.25) MIN_ZOOM\<rparr>"

datatype toolbar_click = ZoomOutClick | PreviousPageClick | NextPageClick | ZoomInClick

fun toolbar_step :: "toolbar_click \<Rightarrow> app_state \<times> viewer_state \<Rightarrow> app_state \<times> viewer_state" where
  "toolbar_step ZoomOutClick (s, v) = (s, handleZoomOut v)"
| "toolbar_step PreviousPageClick (s, v) = (goToPreviousPage s, v)"
| "toolbar_step NextPageClick (s, v) = (goToNextPage v s, v)"
| "toolbar_step ZoomInClick (s, v) = (s, handleZoomIn v)"

definition toolbar_run ::
  "toolbar_click list \<Rightarrow> app_state \<times> viewer_state \<Rightarrow> app_state \<times> viewer_state" where
  "toolbar_run cs sv = fold toolbar_step cs sv"

fun viewport_inv :: "app_state \<times> viewer_state \<Rightarrow> bool" where
  "viewport_inv (s, v) =
     (js_le MIN_ZOOM (zoomLevel v) \<and> js_le (zoomLevel v) MAX_ZOOM \<and>
      1 \<le> pageNum s \<and> pageNum s \<le> numPages v)"

section \<open>Upload validation (FileUpload)\<close>

definition ALLOWED_MIME_TYPES :: "string list" where
  "ALLOWED_MIME_TYPES =
     [''application/pdf'',
      ''application/msword'',
      ''application/vnd.openxmlformats-officedocument.wordprocessingml.document'',
      ''application/vnd.ms-excel'',
      ''application/vnd.openxmlformats-officedocument.spreadsheetml.sheet'',
      ''text/csv'']"

definition ALLOWED_EXTENSIONS :: "string list" where
  "ALLOWED_EXTENSIONS = [''.pdf'', ''.doc'', ''.docx'', ''.xls'', ''.xlsx'', ''.csv'']"

text \<open>
  \<^verbatim>\<open>s.split(c)\<close> for a one-character separator: the pieces between the separators,
  never an empty array. \<^verbatim>\<open>pop()\<close> takes the last piece.
\<close>

fun js_split :: "char \<Rightarrow> string \<Rightarrow> string list" where
  "js_split c [] = [[]]"
| "js_split c (ch # cs) =
     (if ch = c then [] # js_split c cs
      else (case js_split c cs of
              [] \<Rightarrow> [[ch]]
            | w # ws \<Rightarrow> (ch # w) # ws))"

definition js_pop :: "string list \<Rightarrow> string option" where
  "js_pop xs = (if xs = [] then None else Some (last xs))"

text \<open>\<^verbatim>\<open>toLowerCase\<close>, on the ASCII letters (the only ones an allowed extension has).\<close>

definition lower_char :: "char \<Rightarrow> char" where
  "lower_char c =
     (case map_of (zip ''ABCDEFGHIJKLMNOPQRSTUVWXYZ'' ''abcdefghijklmnopqrstuvwxyz'') c of
        None \<Rightarrow> c
      | Some l \<Rightarrow> l)"

definition toLowerCase :: "string \<Rightarrow> string" where
  "toLowerCase cs = map lower_char cs"

text \<open>
  The template string \<^verbatim>\<open>`.${file.name.split('.').pop()?.toLowerCase()}`\<close>; an undefined
  value would print as \<^verbatim>\<open>undefined\<close>.
\<close>

definition fileExtension :: "js_file \<Rightarrow> string" where
  "fileExtension f =
     CHR ''.'' # (case js_pop (js_split CHR ''.'' (file_name f)) of
                    None \<Rightarrow> ''undefined''
                  | Some ext \<Rightarrow> toLowerCase ext)"

definition validateFile :: "js_file \<Rightarrow> string option" where
  "validateFile f =
     (if file_type f \<in> set ALLOWED_MIME_TYPES \<or> fileExtension f \<in> set ALLOWED_EXTENSIONS
      then None
      else Some ''Unsupported file type. Please upload a PDF, Word, Excel, or CSV file.'')"

section \<open>Export (handleDownload)\<close>

type_synonym js_error = string

text \<open>An embedded or decoded image, with its intrinsic size in pixels.\<close>

record png_image =
  img_width :: nat
  img_height :: nat

text \<open>The options object handed to \<^verbatim>\<open>targetPage.drawImage\<close>; the rotation is in degrees.\<close>

record draw_options =
  opt_x :: jsnum
  opt_y :: jsnum
  opt_width :: jsnum
  opt_height :: jsnum
  opt_rotate :: jsnum

text \<open>A page of the loaded document: its size in points and what has been drawn on it.\<close>

record pdf_page =
  page_width :: real
  page_height :: real
  page_content :: "(png_image \<times> draw_options) list"

text \<open>
  \<^verbatim>\<open>page.drawImage(image, options)\<close> of pdf-lib. It first validates the options: \<^verbatim>\<open>x\<close>,
  \<^verbatim>\<open>y\<close>, \<^verbatim>\<open>width\<close> and \<^verbatim>\<open>height\<close> must each be a number that is not NaN, or it throws a
  TypeError (an infinity passes, and so does any rotation made by \<^verbatim>\<open>degrees\<close>). Then it
  appends the drawing to the page's content.
\<close>

definition drawImage :: "pdf_page \<Rightarrow> png_image \<Rightarrow> draw_options \<Rightarrow> js_error + pdf_page" where
  "drawImage page img opts =
     (if opt_x opts = NaN then Inl ''TypeError: options.x must be of type number''
      else if opt_y opts = NaN then Inl ''TypeError: options.y must be of type number''
      else if opt_width opts = NaN then Inl ''TypeError: options.width must be of type number''
      else if opt_height opts = NaN then Inl ''TypeError: options.height must be of type number''
      else Inr (page\<lparr>page_content := page_content page @ [(img, opts)]\<rparr>))"

text \<open>The calls on the 2D context of the raster export, in the order the source makes them.\<close>

datatype canvas_cmd =
  SetFillStyle string
| FillRect real real real real
| SetStrokeStyle string
| SetLineWidth real
| StrokeRect real real real real
| SetFont string
| SetTextAlign string
| FillText string real real
| Save
| Translate jsnum jsnum
| Rotate jsnum
| DrawImage png_image jsnum jsnum jsnum jsnum
| Restore

datatype artifact = PdfBlob "nat list" | PngDataUrl string

record download =
  dl_filename :: string
  dl_content :: artifact

text \<open>
  What the code awaits or calls outside the repository. A step that can throw or reject
  returns \<open>Inl\<close> with the error; the image's \<^verbatim>\<open>onload\<close> may never fire (the source
  installs no \<^verbatim>\<open>onerror\<close>), which is \<open>None\<close>.
\<close>

record collaborators =
  import_pdf_lib :: "js_error option"
  file_arrayBuffer :: "js_file \<Rightarrow> js_error + nat list"
  PDFDocument_load :: "nat list \<Rightarrow> js_error + pdf_page list"
  fetch_arrayBuffer :: "string \<Rightarrow> js_error + nat list"
  embedPng :: "nat list \<Rightarrow> js_error + png_image"
  PDFDocument_save :: "pdf_page list \<Rightarrow> js_error + nat list"
  getContext_2d :: bool
  image_onload :: "string \<Rightarrow> png_image option"
  canvas_toDataURL :: "canvas_cmd list \<Rightarrow> js_error + string"
  toLocaleString_now :: string

text \<open>How the body of the \<^verbatim>\<open>try\<close> block ends.\<close>

datatype completion =
  Thrown js_error
| ReturnedEarly
| LinkClicked download
| NeverSettles

definition then_do :: "js_error + 'a \<Rightarrow> ('a \<Rightarrow> completion) \<Rightarrow> completion" where
  "then_do r k = (case r of Inl e \<Rightarrow> Thrown e | Inr v \<Rightarrow> k v)"

text \<open>
  \<^verbatim>\<open>pages[pageNum - 1] || pages[0]\<close>: an index outside the array reads \<^verbatim>\<open>undefined\<close>,
  and then the first page is taken, if there is one. The result is the index of the page
  object that \<^verbatim>\<open>drawImage\<close> mutates.
\<close>

definition targetPage_index :: "pdf_page list \<Rightarrow> int \<Rightarrow> nat option" where
  "targetPage_index pages n =
     (if 0 \<le> n - 1 \<and> n - 1 < int (length pages) then Some (nat (n - 1))
      else if pages \<noteq> [] then Some 0
      else None)"

definition pdf_draw_options :: "app_state \<Rightarrow> png_image \<Rightarrow> pdf_page \<Rightarrow> draw_options" where
  "pdf_draw_options s pngImage targetPage =
     (let pageWidth = Num (page_width targetPage);
          pageHeight = Num (page_height targetPage);
          sigWidth = signatureSize s;
          sigHeight = (Num (real (img_height pngImage)) / Num (real (img_width pngImage))) * sigWidth;
          x = pos_x (signaturePosition s) * pageWidth - (sigWidth / Num 2);
          y = (Num 1 - pos_y (signaturePosition s)) * pageHeight - (sigHeight / Num 2)
      in \<lparr>opt_x = x, opt_y = y, opt_width = sigWidth, opt_height = sigHeight,
          opt_rotate = signatureRotation s\<rparr>)"

definition export_pdf :: "collaborators \<Rightarrow> app_state \<Rightarrow> js_file \<Rightarrow> string \<Rightarrow> completion" where
  "export_pdf env s f sg =
     (case import_pdf_lib env of
        Some e \<Rightarrow> Thrown e
      | None \<Rightarrow>
          then_do (file_arrayBuffer env f) (\<lambda>existingPdfBytes.
          then_do (PDFDocument_load env existingPdfBytes) (\<lambda>pages.
          then_do (fetch_arrayBuffer env sg) (\<lambda>pngImageBytes.
          then_do (embedPng env pngImageBytes) (\<lambda>pngImage.
            (case targetPage_index pages (pageNum s) of
               None \<Rightarrow> Thrown ''Target page for signature not found.''
             | Some i \<Rightarrow>
                 (let targetPage = pages ! i
                  in then_do (drawImage targetPage pngImage
                                (pdf_draw_options s pngImage targetPage)) (\<lambda>drawnPage.
                     then_do (PDFDocument_save env (pages[i := drawnPage])) (\<lambda>pdfBytes.
                       LinkClicked \<lparr>dl_filename = ''signed-'' @ file_name f,
                                    dl_content = PdfBlob pdfBytes\<rparr>)))))))))"

definition canvas_width :: real where "canvas_width = 800"
definition canvas_height :: real where "canvas_height = 600"

definition raster_header :: "js_file \<Rightarrow> canvas_cmd list" where
  "raster_header f =
     [SetFillStyle ''#f8fafc'',
      FillRect 0 0 canvas_width canvas_height,
      SetStrokeStyle ''#e2e8f0'',
      SetLineWidth 2,
      StrokeRect 0 0 canvas_width canvas_height,
      SetFillStyle ''#1e293b'',
      SetFont ''bold 32px sans-serif'',
      SetTextAlign ''center'',
      FillText ''Document Signed'' (canvas_width / 2) 100,
      SetFillStyle ''#64748b'',
      SetFont ''18px sans-serif'',
      FillText (file_name f) (canvas_width / 2) 150]"

definition raster_signature :: "app_state \<Rightarrow> png_image \<Rightarrow> canvas_cmd list" where
  "raster_signature s img =
     (let sigWidth = signatureSize s * Num 2;
          sigHeight = (Num (real (img_height img)) / Num (real (img_width img))) * sigWidth;
          sigCenterX = pos_x (signaturePosition s) * Num canvas_width;
          sigCenterY = pos_y (signaturePosition s) * Num canvas_height
      in [Save,
          Translate sigCenterX sigCenterY,
          Rotate ((signatureRotation s * Num pi) / Num 180),
          DrawImage img (- sigWidth / Num 2) (- sigHeight / Num 2) sigWidth sigHeight,
          Restore])"

definition raster_footer :: "collaborators \<Rightarrow> canvas_cmd list" where
  "raster_footer env =
     [SetFillStyle ''#94a3b8'',
      SetFont ''14px sans-serif'',
      FillText (''Signed on: '' @ toLocaleString_now env) (canvas_width / 2) (canvas_height - 50)]"

text \<open>
  \<^verbatim>\<open>extension ? file.name.slice(0, -(extension.length + 1)) : file.name\<close>: an empty string
  is falsy, and a negative end that reaches before the start gives the empty string.
\<close>

definition raster_basename :: "js_file \<Rightarrow> string" where
  "raster_basename f =
     (case js_pop (js_split CHR ''.'' (file_name f)) of
        None \<Rightarrow> file_name f
      | Some extension \<Rightarrow>
          if extension = [] then file_name f
          else take (length (file_name f) - (length extension + 1)) (file_name f))"

definition export_raster :: "collaborators \<Rightarrow> app_state \<Rightarrow> js_file \<Rightarrow> string \<Rightarrow> completion" where
  "export_raster env s f sg =
     (if \<not> getContext_2d env then ReturnedEarly
      else (case image_onload env sg of
              None \<Rightarrow> NeverSettles
            | Some img \<Rightarrow>
                then_do (canvas_toDataURL env
                           (raster_header f @ raster_signature s img @ raster_footer env))
                  (\<lambda>url. LinkClicked \<lparr>dl_filename = ''signed-'' @ raster_basename f @ ''.png'',
                                       dl_content = PngDataUrl url\<rparr>)))"

text \<open>
  What one call of \<^verbatim>\<open>handleDownload\<close> leaves behind: the state, what was logged with
  \<^verbatim>\<open>console.error\<close>, what was shown with \<^verbatim>\<open>alert\<close>, and the files handed to the
  browser by \<^verbatim>\<open>link.click()\<close>. The result is \<open>None\<close> when the call never settles.
  The body reads the cells as the handler's closure holds them, so
  \<^verbatim>\<open>setIsDownloading(true)\<close> shows only in the state left behind, where the
  \<^verbatim>\<open>finally\<close> block has reset it.
\<close>

record export_outcome =
  after :: app_state
  console_errors :: "js_error list"
  alerts :: "string list"
  downloads :: "download list"

definition export_body :: "collaborators \<Rightarrow> app_state \<Rightarrow> js_file \<Rightarrow> string \<Rightarrow> completion" where
  "export_body env s f sg =
     (if file_type f = ''application/pdf'' then export_pdf env s f sg
      else export_raster env s f sg)"

definition handleDownload :: "collaborators \<Rightarrow> app_state \<Rightarrow> export_outcome option" where
  "handleDownload env s =
     (case docFile s of
        None \<Rightarrow> Some \<lparr>after = s, console_errors = [], alerts = [], downloads = []\<rparr>
      | Some f \<Rightarrow>
          (case signature s of
             None \<Rightarrow> Some \<lparr>after = s, console_errors = [], alerts = [], downloads = []\<rparr>
           | Some sg \<Rightarrow>
               if sg = [] then Some \<lparr>after = s, console_errors = [], alerts = [], downloads = []\<rparr>
               else
                 (case export_body env s f sg of
                    Thrown e \<Rightarrow>
                      Some \<lparr>after = s\<lparr>isDownloading := False\<rparr>,
                            console_errors = [e],
                            alerts = [''An error occurred while preparing your download. Please try again.''],
                            downloads = []\<rparr>
                  | ReturnedEarly \<Rightarrow>
                      Some \<lparr>after = s\<lparr>isDownloading := False\<rparr>,
                            console_errors = [], alerts = [], downloads = []\<rparr>
                  | LinkClicked d \<Rightarrow>
                      Some \<lparr>after = s\<lparr>isDownloading := False\<rparr>,
                            console_errors = [], alerts = [], downloads = [d]\<rparr>
                  | NeverSettles \<Rightarrow> None)))"

text \<open>
  The 2D context's transform, as the Canvas API defines it: a matrix \<open>(a, b, c, d, e, f)\<close>
  sends \<open>(x, y)\<close> to \<open>(a x + c y + e, b x + d y + f)\<close>; \<^verbatim>\<open>translate\<close> and \<^verbatim>\<open>rotate\<close>
  multiply it on the right, and return without effect on an argument that is not finite.
\<close>

type_synonym matrix = "real \<times> real \<times> real \<times> real \<times> real \<times> real"

definition ctm_identity :: matrix where
  "ctm_identity = (1, 0, 0, 1, 0, 0)"

fun ctm_translate :: "real \<Rightarrow> real \<Rightarrow> matrix \<Rightarrow> matrix" where
  "ctm_translate tx ty (a, b, c, d, e, f) = (a, b, c, d, a * tx + c * ty + e, b * tx + d * ty + f)"

fun ctm_rotate :: "real \<Rightarrow> matrix \<Rightarrow> matrix" where
  "ctm_rotate t (a, b, c, d, e, f) =
     (a * cos t + c * sin t, b * cos t + d * sin t,
      c * cos t - a * sin t, d * cos t - b * sin t, e, f)"

fun ctm_apply :: "matrix \<Rightarrow> real \<times> real \<Rightarrow> real \<times> real" where
  "ctm_apply (a, b, c, d, e, f) (x, y) = (a * x + c * y + e, b * x + d * y + f)"

text \<open>
  The images a list of calls draws: each with the transform in force and its destination
  rectangle \<open>(dx, dy, w, h)\<close> in the transformed coordinates.
\<close>

fun drawn_images ::
  "canvas_cmd list \<Rightarrow> matrix \<Rightarrow> matrix list \<Rightarrow> (png_image \<times> matrix \<times> real \<times> real \<times> real \<times> real) list" where
  "drawn_images [] m st = []"
| "drawn_images (Save # cs) m st = drawn_images cs m (m # st)"
| "drawn_images (Restore # cs) m [] = drawn_images cs m []"
| "drawn_images (Restore # cs) m (m' # st) = drawn_images cs m' st"
| "drawn_images (Translate (Num tx) (Num ty) # cs) m st = drawn_images cs (ctm_translate tx ty m) st"
| "drawn_images (Rotate (Num t) # cs) m st = drawn_images cs (ctm_rotate t m) st"
| "drawn_images (DrawImage img (Num dx) (Num dy) (Num w) (Num h) # cs) m st =
     (img, m, dx, dy, w, h) # drawn_images cs m st"
| "drawn_images (_ # cs) m st = drawn_images cs m st"

section \<open>Page rendering (the effect that calls renderPage)\<close>

text \<open>
  \<^verbatim>\<open>renderPage\<close> is an async function: it runs until an \<^verbatim>\<open>await\<close>, and goes on when the
  awaited promise settles, with other calls of it running in between. Each call is an
  invocation with a program point; the order in which the awaited promises settle is the
  schedule, a list of events. A render task is named by the invocation that started it.
\<close>

record request =
  req_page :: int
  req_zoom :: jsnum

datatype program_point =
  AwaitCancel     \<comment> \<open>at \<^verbatim>\<open>await renderTaskRef.current.cancel()\<close>\<close>
| AwaitGetPage    \<comment> \<open>at \<^verbatim>\<open>await pdfDoc.getPage(pageNumber)\<close>\<close>
| AwaitRender     \<comment> \<open>at \<^verbatim>\<open>await task.promise\<close>\<close>
| Returned

text \<open>
  The render task of an invocation, once started, may have been cancelled, and it may
  have been refused: pdf.js rejects a \<^verbatim>\<open>render()\<close> on a canvas that another task is
  still drawing on, so that the task's promise rejects with an error and nothing is
  drawn. (pdf.js decides this when the task initialises; the model decides it at the
  call.)
\<close>

record invocation =
  inv_req :: request
  inv_pc :: program_point
  task_cancelled :: bool
  task_refused :: bool

text \<open>
  \<open>canvasSize\<close> and \<open>painted\<close> are the visible surface: the request whose viewport the
  canvas was last sized to (which also clears it), and the request whose render last ran
  to completion on it. A settled promise that was cancelled is ignored by the \<^verbatim>\<open>catch\<close>
  block, any other rejection is logged there; neither writes the surface or the ref.
  \<open>surface_log\<close> is a history variable: for every write to the surface, the invocation
  that made it and the number of requests issued by then.
\<close>

record render_state =
  renderTaskRef :: "nat option"
  invocations :: "invocation list"
  canvas_present :: bool
  canvasSize :: "request option"
  painted :: "request option"
  surface_log :: "(nat \<times> nat) list"

definition initial_render :: render_state where
  "initial_render =
     \<lparr>renderTaskRef = None, invocations = [], canvas_present = True,
      canvasSize = None, painted = None, surface_log = []\<rparr>"

datatype render_event =
  RenderRequest request   \<comment> \<open>the effect runs: \<^verbatim>\<open>renderPage(pageNum)\<close> is called\<close>
| Resume nat              \<comment> \<open>the promise the invocation awaits settles\<close>
| Reject nat              \<comment> \<open>it is rejected with an error that is no cancellation\<close>

definition set_pc :: "nat \<Rightarrow> program_point \<Rightarrow> render_state \<Rightarrow> render_state" where
  "set_pc i pc s = s\<lparr>invocations := (invocations s)[i := (invocations s ! i)\<lparr>inv_pc := pc\<rparr>]\<rparr>"

text \<open>A render task that is drawing: started, neither cancelled nor refused, not settled.\<close>

definition live :: "invocation \<Rightarrow> bool" where
  "live v = (inv_pc v = AwaitRender \<and> \<not> task_cancelled v \<and> \<not> task_refused v)"

text \<open>
  \<^verbatim>\<open>const task = page.render(renderContext)\<close> and the wait for \<^verbatim>\<open>task.promise\<close>: the task
  is refused when a task is drawing on the canvas.
\<close>

definition start_task :: "nat \<Rightarrow> render_state \<Rightarrow> render_state" where
  "start_task i s =
     s\<lparr>invocations :=
         (invocations s)[i := (invocations s ! i)
                           \<lparr>inv_pc := AwaitRender,
                            task_refused := list_ex live (invocations s)\<rparr>]\<rparr>"

text \<open>\<^verbatim>\<open>task.cancel()\<close>: a task that is still rendering stops and its promise rejects.\<close>

definition cancel_task :: "nat \<Rightarrow> render_state \<Rightarrow> render_state" where
  "cancel_task t s =
     (if t < length (invocations s) \<and> inv_pc (invocations s ! t) = AwaitRender
      then s\<lparr>invocations := (invocations s)[t := (invocations s ! t)\<lparr>task_cancelled := True\<rparr>]\<rparr>
      else s)"

definition start_renderPage :: "request \<Rightarrow> render_state \<Rightarrow> render_state" where
  "start_renderPage r s =
     (case renderTaskRef s of
        None \<Rightarrow>
          s\<lparr>invocations := invocations s @
               [\<lparr>inv_req = r, inv_pc = AwaitGetPage, task_cancelled = False,
                 task_refused = False\<rparr>]\<rparr>
      | Some t \<Rightarrow>
          (let s' = cancel_task t s
           in s'\<lparr>invocations := invocations s' @
                   [\<lparr>inv_req = r, inv_pc = AwaitCancel, task_cancelled = False,
                     task_refused = False\<rparr>]\<rparr>))"

definition resume_renderPage :: "nat \<Rightarrow> render_state \<Rightarrow> render_state" where
  "resume_renderPage i s =
     (if length (invocations s) \<le> i then s
      else
        (case inv_pc (invocations s ! i) of
           AwaitCancel \<Rightarrow> set_pc i AwaitGetPage s
         | AwaitGetPage \<Rightarrow>
             if \<not> canvas_present s then set_pc i Returned s
             else start_task i
                    (s\<lparr>canvasSize := Some (inv_req (invocations s ! i)),
                       renderTaskRef := Some i,
                       surface_log := surface_log s @ [(i, length (invocations s))]\<rparr>)
         | AwaitRender \<Rightarrow>
             if task_cancelled (invocations s ! i) \<or> task_refused (invocations s ! i)
             then set_pc i Returned s
             else set_pc i Returned
                    (s\<lparr>painted := Some (inv_req (invocations s ! i)),
                       renderTaskRef := None,
                       surface_log := surface_log s @ [(i, length (invocations s))]\<rparr>)
         | Returned \<Rightarrow> s))"

definition reject_renderPage :: "nat \<Rightarrow> render_state \<Rightarrow> render_state" where
  "reject_renderPage i s =
     (if length (invocations s) \<le> i then s
      else
        (case inv_pc (invocations s ! i) of
           AwaitGetPage \<Rightarrow> set_pc i Returned s
         | AwaitRender \<Rightarrow> set_pc i Returned s
         | _ \<Rightarrow> s))"

fun render_step :: "render_event \<Rightarrow> render_state \<Rightarrow> render_state" where
  "render_step (RenderRequest r) s = start_renderPage r s"
| "render_step (Resume i) s = resume_renderPage i s"
| "render_step (Reject i) s = reject_renderPage i s"

definition render_run :: "render_event list \<Rightarrow> render_state \<Rightarrow> render_state" where
  "render_run es s = fold render_step es s"

definition fetching :: "invocation \<Rightarrow> bool" where
  "fetching v = (inv_pc v = AwaitCancel \<or> inv_pc v = AwaitGetPage)"

definition at_most_one_live :: "render_state \<Rightarrow> bool" where
  "at_most_one_live s = (length (filter live (invocations s)) \<le> 1)"

text \<open>Every write to the surface so far came from the request that was the latest then.\<close>

definition only_latest_published :: "render_state \<Rightarrow> bool" where
  "only_latest_published s = list_all (\<lambda>(i, n). Suc i = n) (surface_log s)"

text \<open>
  A schedule in which no request is issued while an earlier invocation has not yet
  started its render task.
\<close>

fun spaced :: "render_event list \<Rightarrow> render_state \<Rightarrow> bool" where
  "spaced [] s = True"
| "spaced (RenderRequest r # es) s =
     (\<not> list_ex fetching (invocations s) \<and> spaced es (render_step (RenderRequest r) s))"
| "spaced (e # es) s = spaced es (render_step e s)"

text \<open>
  The invariant of the schedules above: a task that is drawing is the registered one and
  belongs to the latest request, an invocation that has not started its task is the
  latest one, and the surface was only written for the latest request.
\<close>

definition render_inv :: "render_state \<Rightarrow> bool" where
  "render_inv s =
     ((\<forall>i < length (invocations s). live (invocations s ! i) \<longrightarrow>
          renderTaskRef s = Some i \<and> Suc i = length (invocations s)) \<and>
      (\<forall>i < length (invocations s). fetching (invocations s ! i) \<longrightarrow>
          Suc i = length (invocations s)) \<and>
      only_latest_published s)"

section \<open>Ranges and sample data\<close>




text \<open>A two-page document, a signature image, and collaborators that all succeed.\<close>

definition sample_file :: js_file where
  "sample_file = \<lparr>file_name = ''contract.pdf'', file_type = ''application/pdf''\<rparr>"

definition sample_pages :: "pdf_page list" where
  "sample_pages =
     [\<lparr>page_width = 612, page_height = 792, page_content = []\<rparr>,
      \<lparr>page_width = 842, page_height = 595, page_content = []\<rparr>]"

definition sample_image :: png_image where
  "sample_image = \<lparr>img_width = 300, img_height = 100\<rparr>"

text \<open>The sample serialisation keeps, for every page, the number of images drawn on it.\<close>

definition sample_serialize :: "pdf_page list \<Rightarrow> nat list" where
  "sample_serialize d = map (\<lambda>p. length (page_content p)) d"

definition working_collaborators :: collaborators where
  "working_collaborators =
     \<lparr>import_pdf_lib = None,
      file_arrayBuffer = (\<lambda>f. Inr [37, 80, 68, 70]),
      PDFDocument_load = (\<lambda>b. Inr sample_pages),
      fetch_arrayBuffer = (\<lambda>u. Inr [137, 80, 78, 71]),
      embedPng = (\<lambda>b. Inr sample_image),
      PDFDocument_save = (\<lambda>d. Inr (sample_serialize d)),
      getContext_2d = True,
      image_onload = (\<lambda>u. Some sample_image),
      canvas_toDataURL = (\<lambda>cs. Inr ''data:image/png;base64,iVBORw0KGgo=''),
      toLocaleString_now = ''11/2/2026, 3:29:00 PM''\<rparr>"


text \<open>The same collaborators with a document that has no page.\<close>

definition pageless_collaborators :: collaborators where
  "pageless_collaborators = working_collaborators\<lparr>PDFDocument_load := (\<lambda>b. Inr [])\<rparr>"


definition sample_sheet :: js_file where
  "sample_sheet = \<lparr>file_name = ''budget.2026.xlsx'', file_type = ''application/vnd.ms-excel''\<rparr>"

text \<open>A session with the sample file on its second page and a drawn signature.\<close>

definition signed_session :: app_state where
  "signed_session =
     onPageNumChange 2
       (handleSaveSignature ''data:image/png;base64,iVBORw0KGgo=''
          (handleFileSelect sample_file initial_app))"

definition page_two_request :: request where
  "page_two_request = \<lparr>req_page = 2, req_zoom = Num 1\<rparr>"

definition page_one_request :: request where
  "page_one_request = \<lparr>req_page = 1, req_zoom = Num 1\<rparr>"

section \<open>Session state: file selection and reset\<close>

text \<open>
  Claim C10. Selecting a new document file sets the signature to null and the page number
  to 1 and leaves position, size and rotation of the placement as they were; the reset
  puts the placement back to its defaults: position (0.85, 0.8), size 150, rotation 0.
\<close>

theorem file_select_keeps_placement:
  "signature (handleFileSelect f s) = None \<and>
   pageNum (handleFileSelect f s) = 1 \<and>
   docFile (handleFileSelect f s) = Some f \<and>
   signaturePosition (handleFileSelect f s) = signaturePosition s \<and>
   signatureSize (handleFileSelect f s) = signatureSize s \<and>
   signatureRotation (handleFileSelect f s) = signatureRotation s \<and>
   signaturePosition (handleReset s) = \<lparr>pos_x = Num 0.85, pos_y = Num 0.8\<rparr> \<and>
   signatureSize (handleReset s) = Num 150 \<and>
   signatureRotation (handleReset s) = Num 0 \<and>
   signature (handleReset s) = None \<and>
   pageNum (handleReset s) = 1"
  by (simp add: handleFileSelect_def handleReset_def)

section \<open>Placement: drag and size\<close>

lemma in_unit_clamp:
  "0 < w \<Longrightarrow> in_unit (Math_max (Num 0) (Math_min (Num 1) (Num a / Num w)))"
  by (simp add: in_unit_def)

lemma handleDragMouseMove_inv:
  assumes "nondegenerate (Drag container moveEvent)" and "placement_inv s"
  shows "placement_inv (handleDragMouseMove container moveEvent s)"
proof (cases container)
  case None
  with assms show ?thesis by (simp add: handleDragMouseMove_def)
next
  case (Some r)
  with assms show ?thesis
    by (simp add: handleDragMouseMove_def placement_inv_def onSignaturePositionChange_def
        in_unit_clamp Let_def
        del: Math_max.simps Math_min.simps divide_jsnum.simps)
qed

lemma handleIncreaseSignatureSize_inv:
  "placement_inv s \<Longrightarrow> placement_inv (handleIncreaseSignatureSize s)"
  by (cases "signatureSize s")
     (auto simp add: placement_inv_def handleIncreaseSignatureSize_def
        onSignatureSizeChange_def MAX_SIG_SIZE_def MIN_SIG_SIZE_def)

lemma handleDecreaseSignatureSize_inv:
  "placement_inv s \<Longrightarrow> placement_inv (handleDecreaseSignatureSize s)"
  by (cases "signatureSize s")
     (auto simp add: placement_inv_def handleDecreaseSignatureSize_def
        onSignatureSizeChange_def MAX_SIG_SIZE_def MIN_SIG_SIZE_def minus_jsnum_def)

lemma placement_step_inv:
  "nondegenerate e \<Longrightarrow> placement_inv s \<Longrightarrow> placement_inv (placement_step e s)"
  by (cases e)
     (simp_all add: handleDragMouseMove_inv handleIncreaseSignatureSize_inv
        handleDecreaseSignatureSize_inv)

text \<open>
  Claim C5. After every sequence of drags and size changes the stored placement has its
  position in the unit square and its size between \<open>MIN_SIG_SIZE\<close> and \<open>MAX_SIG_SIZE\<close>.
  The code does not keep this: a drag whose container rectangle has width zero, with the
  pointer on the rectangle's left edge, divides zero by zero, and \<^verbatim>\<open>Math.min\<close> and
  \<^verbatim>\<open>Math.max\<close> hand the NaN on into the stored position.
\<close>

theorem drag_in_empty_container_stores_NaN:
  "placement_inv initial_app \<and>
   signaturePosition
     (placement_run
        [Drag (Some \<lparr>rect_left = 100, rect_top = 50, rect_width = 0, rect_height = 0\<rparr>)
              \<lparr>clientX = 100, clientY = 80\<rparr>]
        initial_app) = \<lparr>pos_x = NaN, pos_y = Num 1\<rparr> \<and>
   \<not> placement_inv
     (placement_run
        [Drag (Some \<lparr>rect_left = 100, rect_top = 50, rect_width = 0, rect_height = 0\<rparr>)
              \<lparr>clientX = 100, clientY = 80\<rparr>]
        initial_app)"
  by (simp add: placement_run_def handleDragMouseMove_def onSignaturePositionChange_def
      initial_app_def placement_inv_def in_unit_def MIN_SIG_SIZE_def MAX_SIG_SIZE_def)

text \<open>
  With container rectangles of positive width and height the invariant is kept by every
  sequence of drags and size changes, wherever the pointer goes.
\<close>

theorem placement_inv_preserved:
  "list_all nondegenerate es \<Longrightarrow> placement_inv s \<Longrightarrow> placement_inv (placement_run es s)"
  unfolding placement_run_def
  by (induction es arbitrary: s) (simp_all add: placement_step_inv)

theorem placement_inv_preserved_witness:
  "list_all nondegenerate
     [Drag (Some \<lparr>rect_left = 100, rect_top = 50, rect_width = 600, rect_height = 800\<rparr>)
           \<lparr>clientX = 2000, clientY = - 30\<rparr>,
      IncreaseSize, IncreaseSize, DecreaseSize] \<and>
   placement_inv initial_app \<and>
   placement_inv
     (placement_run
        [Drag (Some \<lparr>rect_left = 100, rect_top = 50, rect_width = 600, rect_height = 800\<rparr>)
              \<lparr>clientX = 2000, clientY = - 30\<rparr>,
         IncreaseSize, IncreaseSize, DecreaseSize]
        initial_app) \<and>
   signaturePosition
     (placement_run
        [Drag (Some \<lparr>rect_left = 100, rect_top = 50, rect_width = 600, rect_height = 800\<rparr>)
              \<lparr>clientX = 2000, clientY = - 30\<rparr>,
         IncreaseSize, IncreaseSize, DecreaseSize]
        initial_app) = \<lparr>pos_x = Num 1, pos_y = Num 0\<rparr>"
proof -
  have start: "placement_inv initial_app"
    by (simp add: initial_app_def placement_inv_def in_unit_def MIN_SIG_SIZE_def MAX_SIG_SIZE_def)
  have shape: "list_all nondegenerate
     [Drag (Some \<lparr>rect_left = 100, rect_top = 50, rect_width = 600, rect_height = 800\<rparr>)
           \<lparr>clientX = 2000, clientY = - 30\<rparr>,
      IncreaseSize, IncreaseSize, DecreaseSize]"
    by simp
  have pos: "signaturePosition
     (placement_run
        [Drag (Some \<lparr>rect_left = 100, rect_top = 50, rect_width = 600, rect_height = 800\<rparr>)
              \<lparr>clientX = 2000, clientY = - 30\<rparr>,
         IncreaseSize, IncreaseSize, DecreaseSize]
        initial_app) = \<lparr>pos_x = Num 1, pos_y = Num 0\<rparr>"
    by (simp add: placement_run_def handleDragMouseMove_def onSignaturePositionChange_def
        handleIncreaseSignatureSize_def handleDecreaseSignatureSize_def
        onSignatureSizeChange_def initial_app_def)
  from placement_inv_preserved [OF shape start] start shape pos show ?thesis by simp
qed

section \<open>Placement: rotation\<close>












section \<open>Viewer: zoom and page\<close>

lemma toolbar_step_inv: "viewport_inv sv \<Longrightarrow> viewport_inv (toolbar_step c sv)"
proof (cases sv)
  case (Pair s v)
  assume inv: "viewport_inv sv"
  show ?thesis
  proof (cases c)
    case ZoomOutClick
    with Pair inv show ?thesis
      by (cases "zoomLevel v")
         (auto simp: handleZoomOut_def MIN_ZOOM_def MAX_ZOOM_def minus_jsnum_def)
  next
    case PreviousPageClick
    with Pair inv show ?thesis by (auto simp: goToPreviousPage_def onPageNumChange_def)
  next
    case NextPageClick
    with Pair inv show ?thesis by (auto simp: goToNextPage_def onPageNumChange_def)
  next
    case ZoomInClick
    with Pair inv show ?thesis
      by (cases "zoomLevel v") (auto simp: handleZoomIn_def MIN_ZOOM_def MAX_ZOOM_def)
  qed
qed

text \<open>
  Claim C8. After every sequence of zoom-in, zoom-out, next-page and previous-page
  operations the zoom level is between \<open>MIN_ZOOM\<close> and \<open>MAX_ZOOM\<close> and the page number
  between 1 and the page count, given that they were before (as they are once a document
  with at least one page is loaded: page 1 at the default zoom).
\<close>

theorem viewport_bounds_preserved:
  "viewport_inv sv \<Longrightarrow> viewport_inv (toolbar_run cs sv)"
  unfolding toolbar_run_def
  by (induction cs arbitrary: sv) (simp_all add: toolbar_step_inv)

theorem viewport_bounds_preserved_witness:
  "viewport_inv (initial_app, \<lparr>numPages = 2, zoomLevel = DEFAULT_ZOOM\<rparr>) \<and>
   viewport_inv
     (toolbar_run
        [NextPageClick, NextPageClick, ZoomOutClick, ZoomOutClick, ZoomOutClick,
         PreviousPageClick, PreviousPageClick, ZoomInClick]
        (initial_app, \<lparr>numPages = 2, zoomLevel = DEFAULT_ZOOM\<rparr>)) \<and>
   toolbar_run [NextPageClick, NextPageClick, NextPageClick, ZoomOutClick, ZoomOutClick, ZoomOutClick]
     (initial_app, \<lparr>numPages = 2, zoomLevel = DEFAULT_ZOOM\<rparr>)
     = (initial_app\<lparr>pageNum := 2\<rparr>, \<lparr>numPages = 2, zoomLevel = MIN_ZOOM\<rparr>)"
proof -
  have start: "viewport_inv (initial_app, \<lparr>numPages = 2, zoomLevel = DEFAULT_ZOOM\<rparr>)"
    by (simp add: initial_app_def DEFAULT_ZOOM_def MIN_ZOOM_def MAX_ZOOM_def)
  have clamp: "toolbar_run [NextPageClick, NextPageClick, NextPageClick, ZoomOutClick, ZoomOutClick, ZoomOutClick]
     (initial_app, \<lparr>numPages = 2, zoomLevel = DEFAULT_ZOOM\<rparr>)
     = (initial_app\<lparr>pageNum := 2\<rparr>, \<lparr>numPages = 2, zoomLevel = MIN_ZOOM\<rparr>)"
    by (simp add: toolbar_run_def goToNextPage_def onPageNumChange_def handleZoomOut_def
        initial_app_def DEFAULT_ZOOM_def MIN_ZOOM_def minus_jsnum_def)
  from viewport_bounds_preserved [OF start] start clamp show ?thesis by simp
qed

section \<open>Upload validation\<close>

text \<open>
  Claim C9. The validator accepts a file exactly when its MIME type is in the allowed list
  or its extension is in the allowed extension list; so a file with a disallowed MIME
  type is still accepted on its extension alone. The extension is what the code computes:
  a dot followed by the lower-cased text after the last dot of the name.
\<close>

theorem validateFile_disjunctive:
  "(validateFile f = None) =
     (file_type f \<in> set ALLOWED_MIME_TYPES \<or> fileExtension f \<in> set ALLOWED_EXTENSIONS) \<and>
   (file_type f \<notin> set ALLOWED_MIME_TYPES \<and> fileExtension f \<in> set ALLOWED_EXTENSIONS
      \<longrightarrow> validateFile f = None)"
  by (simp add: validateFile_def)

theorem validateFile_disjunctive_witness:
  "file_type \<lparr>file_name = ''Report.final.PDF'', file_type = ''application/octet-stream''\<rparr>
     \<notin> set ALLOWED_MIME_TYPES \<and>
   fileExtension \<lparr>file_name = ''Report.final.PDF'', file_type = ''application/octet-stream''\<rparr>
     = ''.pdf'' \<and>
   validateFile \<lparr>file_name = ''Report.final.PDF'', file_type = ''application/octet-stream''\<rparr>
     = None \<and>
   validateFile \<lparr>file_name = ''photo.png'', file_type = ''image/png''\<rparr> \<noteq> None"
proof -
  have mime: "file_type \<lparr>file_name = ''Report.final.PDF'', file_type = ''application/octet-stream''\<rparr>
     \<notin> set ALLOWED_MIME_TYPES"
    by (simp add: ALLOWED_MIME_TYPES_def)
  have ext: "fileExtension \<lparr>file_name = ''Report.final.PDF'', file_type = ''application/octet-stream''\<rparr>
     = ''.pdf''"
    by (simp add: fileExtension_def js_pop_def toLowerCase_def lower_char_def)
  have other: "fileExtension \<lparr>file_name = ''photo.png'', file_type = ''image/png''\<rparr> = ''.png''"
    by (simp add: fileExtension_def js_pop_def toLowerCase_def lower_char_def)
  have no: "validateFile \<lparr>file_name = ''photo.png'', file_type = ''image/png''\<rparr> \<noteq> None"
    using validateFile_disjunctive [of "\<lparr>file_name = ''photo.png'', file_type = ''image/png''\<rparr>"]
      other
    by (simp add: ALLOWED_MIME_TYPES_def ALLOWED_EXTENSIONS_def)
  have yes: "validateFile \<lparr>file_name = ''Report.final.PDF'', file_type = ''application/octet-stream''\<rparr>
     = None"
    using validateFile_disjunctive
      [of "\<lparr>file_name = ''Report.final.PDF'', file_type = ''application/octet-stream''\<rparr>"]
      mime ext
    by (simp add: ALLOWED_EXTENSIONS_def)
  from mime ext yes no show ?thesis by simp
qed

text \<open>
  What the extension is. For a name with a dot it is the text after the last dot; a name
  without a dot counts as its own extension, so a file named \<^verbatim>\<open>pdf\<close> is accepted
  whatever its type.
\<close>

lemma js_split_no_separator: "c \<notin> set ext \<Longrightarrow> js_split c ext = [ext]"
  by (induction ext) auto

lemma js_split_ends_with_extension:
  "c \<notin> set ext \<Longrightarrow> \<exists>ws. ws \<noteq> [] \<and> js_split c (base @ c # ext) = ws @ [ext]"
proof (induction base)
  case Nil
  then have "js_split c ([] @ c # ext) = [[]] @ [ext]" by (simp add: js_split_no_separator)
  then show ?case by blast
next
  case (Cons b base)
  then obtain ws where ws: "ws \<noteq> []" "js_split c (base @ c # ext) = ws @ [ext]" by blast
  then obtain w ws' where w: "ws = w # ws'" by (cases ws) auto
  show ?case
  proof (cases "b = c")
    case True
    with ws have "js_split c ((b # base) @ c # ext) = ([] # ws) @ [ext]" by simp
    then show ?thesis by blast
  next
    case False
    with ws w have "js_split c ((b # base) @ c # ext) = ((b # w) # ws') @ [ext]" by simp
    then show ?thesis by blast
  qed
qed

theorem fileExtension_after_last_dot:
  "CHR ''.'' \<notin> set ext \<Longrightarrow>
   fileExtension \<lparr>file_name = base @ ''.'' @ ext, file_type = t\<rparr> = ''.'' @ toLowerCase ext"
proof -
  assume "CHR ''.'' \<notin> set ext"
  from js_split_ends_with_extension [OF this, of base]
  obtain ws where "js_split CHR ''.'' (base @ CHR ''.'' # ext) = ws @ [ext]" by blast
  then show ?thesis by (simp add: fileExtension_def js_pop_def)
qed

theorem fileExtension_after_last_dot_witness:
  "CHR ''.'' \<notin> set ''docx'' \<and>
   fileExtension \<lparr>file_name = ''notes.v2'' @ ''.'' @ ''docx'', file_type = ''text/plain''\<rparr>
     = ''.'' @ toLowerCase ''docx''"
  using fileExtension_after_last_dot [of "''docx''" "''notes.v2''" "''text/plain''"] by simp

theorem dotless_name_is_its_extension:
  "fileExtension \<lparr>file_name = ''pdf'', file_type = ''text/plain''\<rparr> = ''.pdf'' \<and>
   validateFile \<lparr>file_name = ''pdf'', file_type = ''text/plain''\<rparr> = None"
  by (simp add: validateFile_def fileExtension_def js_pop_def toLowerCase_def lower_char_def
      ALLOWED_EXTENSIONS_def)

section \<open>Export to PDF\<close>

text \<open>
  The options of a finite placement are finite, and \<^verbatim>\<open>drawImage\<close> accepts them.
\<close>

lemma pdf_draw_options_finite:
  assumes "signaturePosition s = \<lparr>pos_x = Num px, pos_y = Num py\<rparr>"
    and "signatureSize s = Num sigW"
    and "0 < img_width img"
  shows "pdf_draw_options s img page =
           \<lparr>opt_x = Num (px * page_width page - sigW / 2),
            opt_y = Num ((1 - py) * page_height page
                         - sigW * (real (img_height img) / real (img_width img)) / 2),
            opt_width = Num sigW,
            opt_height = Num (sigW * (real (img_height img) / real (img_width img))),
            opt_rotate = signatureRotation s\<rparr>"
  using assms by (simp add: pdf_draw_options_def minus_jsnum_def Let_def)

lemma handleDownload_pdf_delivers:
  assumes "docFile s = Some f" and "file_type f = ''application/pdf''"
    and "signature s = Some sg" and "sg \<noteq> []"
    and "import_pdf_lib env = None"
    and "file_arrayBuffer env f = Inr bytes"
    and "PDFDocument_load env bytes = Inr pages"
    and "fetch_arrayBuffer env sg = Inr pngBytes"
    and "embedPng env pngBytes = Inr img"
    and "PDFDocument_save env = (\<lambda>d. Inr (serialize d))"
    and "targetPage_index pages (pageNum s) = Some i"
    and "signaturePosition s = \<lparr>pos_x = Num px, pos_y = Num py\<rparr>"
    and "signatureSize s = Num sigW"
    and "0 < img_width img"
  shows "handleDownload env s =
           Some \<lparr>after = s\<lparr>isDownloading := False\<rparr>, console_errors = [], alerts = [],
                 downloads =
                   [\<lparr>dl_filename = ''signed-'' @ file_name f,
                     dl_content = PdfBlob (serialize
                       (pages[i := (pages ! i)
                          \<lparr>page_content := page_content (pages ! i) @
                             [(img,
                               \<lparr>opt_x = Num (px * page_width (pages ! i) - sigW / 2),
                                opt_y = Num ((1 - py) * page_height (pages ! i)
                                  - sigW * (real (img_height img) / real (img_width img)) / 2),
                                opt_width = Num sigW,
                                opt_height =
                                  Num (sigW * (real (img_height img) / real (img_width img))),
                                opt_rotate = signatureRotation s\<rparr>)]\<rparr>]))\<rparr>]\<rparr>"
proof -
  note opts = pdf_draw_options_finite [OF assms(12-14), of "pages ! i"]
  have "export_pdf env s f sg =
          LinkClicked
            \<lparr>dl_filename = ''signed-'' @ file_name f,
             dl_content = PdfBlob (serialize
               (pages[i := (pages ! i)
                  \<lparr>page_content := page_content (pages ! i) @
                     [(img,
                       \<lparr>opt_x = Num (px * page_width (pages ! i) - sigW / 2),
                        opt_y = Num ((1 - py) * page_height (pages ! i)
                          - sigW * (real (img_height img) / real (img_width img)) / 2),
                        opt_width = Num sigW,
                        opt_height =
                          Num (sigW * (real (img_height img) / real (img_width img))),
                        opt_rotate = signatureRotation s\<rparr>)]\<rparr>]))\<rparr>"
    using assms(5-11) by (simp add: export_pdf_def then_do_def Let_def opts drawImage_def)
  then show ?thesis using assms(1-4) by (simp add: handleDownload_def export_body_def)
qed

text \<open>
  Claim C1. For a placement with position \<open>(px, py)\<close> and size \<open>sigW\<close>, a signature image
  and a document, the PDF export draws the signature on the target page \<open>i\<close> (the viewed
  page, or the first one), and on no other, with width \<open>sigW\<close>, height
  \<open>sigH = sigW * (imageHeight / imageWidth)\<close>, at \<open>x = px * pageWidth - sigW / 2\<close> and
  \<open>y = (1 - py) * pageHeight - sigH / 2\<close>, and delivers the serialised document; a
  placement at \<open>(0.5, 0)\<close> is drawn at \<open>y = pageHeight - sigH / 2\<close>.
\<close>

theorem pdf_export_draws_signature:
  assumes "docFile s = Some f" and "file_type f = ''application/pdf''"
    and "signature s = Some sg" and "sg \<noteq> []"
    and "import_pdf_lib env = None"
    and "file_arrayBuffer env f = Inr bytes"
    and "PDFDocument_load env bytes = Inr pages"
    and "fetch_arrayBuffer env sg = Inr pngBytes"
    and "embedPng env pngBytes = Inr img"
    and "PDFDocument_save env = (\<lambda>d. Inr (serialize d))"
    and "pages \<noteq> []"
    and "i = (if 1 \<le> pageNum s \<and> pageNum s \<le> int (length pages)
              then nat (pageNum s - 1) else 0)"
    and "signaturePosition s = \<lparr>pos_x = Num px, pos_y = Num py\<rparr>"
    and "signatureSize s = Num sigW"
    and "0 < img_width img"
    and "sigH = sigW * (real (img_height img) / real (img_width img))"
  shows "handleDownload env s =
           Some \<lparr>after = s\<lparr>isDownloading := False\<rparr>, console_errors = [], alerts = [],
                 downloads =
                   [\<lparr>dl_filename = ''signed-'' @ file_name f,
                     dl_content = PdfBlob (serialize
                       (pages[i := (pages ! i)
                          \<lparr>page_content := page_content (pages ! i) @
                             [(img,
                               \<lparr>opt_x = Num (px * page_width (pages ! i) - sigW / 2),
                                opt_y = Num ((1 - py) * page_height (pages ! i) - sigH / 2),
                                opt_width = Num sigW,
                                opt_height = Num sigH,
                                opt_rotate = signatureRotation s\<rparr>)]\<rparr>]))\<rparr>]\<rparr> \<and>
         (px = 1 / 2 \<and> py = 0 \<longrightarrow>
            handleDownload env s =
              Some \<lparr>after = s\<lparr>isDownloading := False\<rparr>, console_errors = [], alerts = [],
                    downloads =
                      [\<lparr>dl_filename = ''signed-'' @ file_name f,
                        dl_content = PdfBlob (serialize
                          (pages[i := (pages ! i)
                             \<lparr>page_content := page_content (pages ! i) @
                                [(img,
                                  \<lparr>opt_x = Num (page_width (pages ! i) / 2 - sigW / 2),
                                   opt_y = Num (page_height (pages ! i) - sigH / 2),
                                   opt_width = Num sigW,
                                   opt_height = Num sigH,
                                   opt_rotate = signatureRotation s\<rparr>)]\<rparr>]))\<rparr>]\<rparr>)"
proof -
  have idx: "targetPage_index pages (pageNum s) = Some i"
    using assms(11,12) by (auto simp: targetPage_index_def)
  from handleDownload_pdf_delivers [OF assms(1-10) idx assms(13-15)] assms(16)
  have main: "handleDownload env s =
           Some \<lparr>after = s\<lparr>isDownloading := False\<rparr>, console_errors = [], alerts = [],
                 downloads =
                   [\<lparr>dl_filename = ''signed-'' @ file_name f,
                     dl_content = PdfBlob (serialize
                       (pages[i := (pages ! i)
                          \<lparr>page_content := page_content (pages ! i) @
                             [(img,
                               \<lparr>opt_x = Num (px * page_width (pages ! i) - sigW / 2),
                                opt_y = Num ((1 - py) * page_height (pages ! i) - sigH / 2),
                                opt_width = Num sigW,
                                opt_height = Num sigH,
                                opt_rotate = signatureRotation s\<rparr>)]\<rparr>]))\<rparr>]\<rparr>"
    by simp
  show ?thesis
  proof (intro conjI impI)
    show "handleDownload env s =
           Some \<lparr>after = s\<lparr>isDownloading := False\<rparr>, console_errors = [], alerts = [],
                 downloads =
                   [\<lparr>dl_filename = ''signed-'' @ file_name f,
                     dl_content = PdfBlob (serialize
                       (pages[i := (pages ! i)
                          \<lparr>page_content := page_content (pages ! i) @
                             [(img,
                               \<lparr>opt_x = Num (px * page_width (pages ! i) - sigW / 2),
                                opt_y = Num ((1 - py) * page_height (pages ! i) - sigH / 2),
                                opt_width = Num sigW,
                                opt_height = Num sigH,
                                opt_rotate = signatureRotation s\<rparr>)]\<rparr>]))\<rparr>]\<rparr>"
      by (rule main)
  next
    assume "px = 1 / 2 \<and> py = 0"
    then have "px = 1 / 2" and "py = 0" by simp_all
    with main show "handleDownload env s =
              Some \<lparr>after = s\<lparr>isDownloading := False\<rparr>, console_errors = [], alerts = [],
                    downloads =
                      [\<lparr>dl_filename = ''signed-'' @ file_name f,
                        dl_content = PdfBlob (serialize
                          (pages[i := (pages ! i)
                             \<lparr>page_content := page_content (pages ! i) @
                                [(img,
                                  \<lparr>opt_x = Num (page_width (pages ! i) / 2 - sigW / 2),
                                   opt_y = Num (page_height (pages ! i) - sigH / 2),
                                   opt_width = Num sigW,
                                   opt_height = Num sigH,
                                   opt_rotate = signatureRotation s\<rparr>)]\<rparr>]))\<rparr>]\<rparr>"
      by simp
  qed
qed

text \<open>
  The spec's scenario: page 2 of 2, the default placement moved to the top centre. The
  mark is on the second page only, at \<open>y = 595 - 25\<close>.
\<close>

theorem pdf_export_draws_signature_witness:
  "pageNum (onSignaturePositionChange \<lparr>pos_x = Num (1 / 2), pos_y = Num 0\<rparr> signed_session) = 2 \<and>
   PDFDocument_load working_collaborators [37, 80, 68, 70] = Inr sample_pages \<and>
   embedPng working_collaborators [137, 80, 78, 71] = Inr sample_image \<and>
   handleDownload working_collaborators
     (onSignaturePositionChange \<lparr>pos_x = Num (1 / 2), pos_y = Num 0\<rparr> signed_session)
   = Some \<lparr>after = (onSignaturePositionChange \<lparr>pos_x = Num (1 / 2), pos_y = Num 0\<rparr>
                       signed_session)\<lparr>isDownloading := False\<rparr>,
           console_errors = [], alerts = [],
           downloads =
             [\<lparr>dl_filename = ''signed-contract.pdf'',
               dl_content = PdfBlob (sample_serialize
                 [\<lparr>page_width = 612, page_height = 792, page_content = []\<rparr>,
                  \<lparr>page_width = 842, page_height = 595,
                    page_content =
                      [(sample_image,
                        \<lparr>opt_x = Num (842 / 2 - 150 / 2), opt_y = Num (595 - 50 / 2),
                         opt_width = Num 150, opt_height = Num 50,
                         opt_rotate = Num 0\<rparr>)]\<rparr>])\<rparr>]\<rparr>"
proof -
  let ?s = "onSignaturePositionChange \<lparr>pos_x = Num (1 / 2), pos_y = Num 0\<rparr> signed_session"
  have f: "docFile ?s = Some sample_file"
    by (simp add: onSignaturePositionChange_def onPageNumChange_def signed_session_def
        handleSaveSignature_def handleFileSelect_def)
  have t: "file_type sample_file = ''application/pdf''" by (simp add: sample_file_def)
  have sg: "signature ?s = Some ''data:image/png;base64,iVBORw0KGgo=''"
    by (simp add: onSignaturePositionChange_def onPageNumChange_def signed_session_def
        handleSaveSignature_def)
  have ne: "''data:image/png;base64,iVBORw0KGgo='' \<noteq> []" by simp
  have imp: "import_pdf_lib working_collaborators = None"
    by (simp add: working_collaborators_def)
  have buf: "file_arrayBuffer working_collaborators sample_file = Inr [37, 80, 68, 70]"
    by (simp add: working_collaborators_def)
  have load: "PDFDocument_load working_collaborators [37, 80, 68, 70] = Inr sample_pages"
    by (simp add: working_collaborators_def)
  have fetch: "fetch_arrayBuffer working_collaborators ''data:image/png;base64,iVBORw0KGgo=''
                 = Inr [137, 80, 78, 71]"
    by (simp add: working_collaborators_def)
  have emb: "embedPng working_collaborators [137, 80, 78, 71] = Inr sample_image"
    by (simp add: working_collaborators_def)
  have sv: "PDFDocument_save working_collaborators = (\<lambda>d. Inr (sample_serialize d))"
    by (simp add: working_collaborators_def)
  have pg: "sample_pages \<noteq> []" by (simp add: sample_pages_def)
  have pn: "pageNum ?s = 2"
    by (simp add: onSignaturePositionChange_def onPageNumChange_def signed_session_def)
  have i: "(1::nat) = (if 1 \<le> pageNum ?s \<and> pageNum ?s \<le> int (length sample_pages)
                       then nat (pageNum ?s - 1) else 0)"
    by (simp add: pn sample_pages_def)
  have pos: "signaturePosition ?s = \<lparr>pos_x = Num (1 / 2), pos_y = Num 0\<rparr>"
    by (simp add: onSignaturePositionChange_def)
  have sz: "signatureSize ?s = Num 150"
    by (simp add: onSignaturePositionChange_def onPageNumChange_def signed_session_def
        handleSaveSignature_def handleFileSelect_def initial_app_def)
  have rot: "signatureRotation ?s = Num 0"
    by (simp add: onSignaturePositionChange_def onPageNumChange_def signed_session_def
        handleSaveSignature_def handleFileSelect_def initial_app_def)
  have img: "0 < img_width sample_image" by (simp add: sample_image_def)
  have h: "(50::real) = 150 * (real (img_height sample_image) / real (img_width sample_image))"
    by (simp add: sample_image_def)
  from pdf_export_draws_signature [OF f t sg ne imp buf load fetch emb sv pg i pos sz img h]
  have "handleDownload working_collaborators ?s =
          Some \<lparr>after = ?s\<lparr>isDownloading := False\<rparr>, console_errors = [], alerts = [],
                downloads =
                  [\<lparr>dl_filename = ''signed-'' @ file_name sample_file,
                    dl_content = PdfBlob (sample_serialize
                      (sample_pages[1 := (sample_pages ! 1)
                         \<lparr>page_content := page_content (sample_pages ! 1) @
                            [(sample_image,
                              \<lparr>opt_x = Num (page_width (sample_pages ! 1) / 2 - 150 / 2),
                               opt_y = Num (page_height (sample_pages ! 1) - 50 / 2),
                               opt_width = Num 150,
                               opt_height = Num 50,
                               opt_rotate = signatureRotation ?s\<rparr>)]\<rparr>]))\<rparr>]\<rparr>"
    by blast
  then have "handleDownload working_collaborators ?s
   = Some \<lparr>after = ?s\<lparr>isDownloading := False\<rparr>,
           console_errors = [], alerts = [],
           downloads =
             [\<lparr>dl_filename = ''signed-contract.pdf'',
               dl_content = PdfBlob (sample_serialize
                 [\<lparr>page_width = 612, page_height = 792, page_content = []\<rparr>,
                  \<lparr>page_width = 842, page_height = 595,
                    page_content =
                      [(sample_image,
                        \<lparr>opt_x = Num (842 / 2 - 150 / 2), opt_y = Num (595 - 50 / 2),
                         opt_width = Num 150, opt_height = Num 50,
                         opt_rotate = Num 0\<rparr>)]\<rparr>])\<rparr>]\<rparr>"
    by (simp add: rot sample_file_def sample_pages_def)
  with pn load emb show ?thesis by blast
qed

text \<open>
  Claim C3, as amended. A PDF export whose page number is outside \<open>[1, pageCount]\<close>, on
  a document that has a page, does not fail for that: it draws on the first page, and on
  no other, and delivers the file (the other steps of the export succeeding, with a
  finite placement). A document without any page has no first page to fall back to, and
  the export fails on its guard.
\<close>

theorem page_out_of_range_falls_back:
  assumes "docFile s = Some f" and "file_type f = ''application/pdf''"
    and "signature s = Some sg" and "sg \<noteq> []"
    and "import_pdf_lib env = None"
    and "file_arrayBuffer env f = Inr bytes"
    and "PDFDocument_load env bytes = Inr pages"
    and "fetch_arrayBuffer env sg = Inr pngBytes"
    and "embedPng env pngBytes = Inr img"
    and "PDFDocument_save env = (\<lambda>d. Inr (serialize d))"
    and "pages \<noteq> []"
    and "pageNum s < 1 \<or> int (length pages) < pageNum s"
    and "signaturePosition s = \<lparr>pos_x = Num px, pos_y = Num py\<rparr>"
    and "signatureSize s = Num sigW"
    and "0 < img_width img"
  shows "handleDownload env s =
           Some \<lparr>after = s\<lparr>isDownloading := False\<rparr>, console_errors = [], alerts = [],
                 downloads =
                   [\<lparr>dl_filename = ''signed-'' @ file_name f,
                     dl_content = PdfBlob (serialize
                       ((hd pages)
                          \<lparr>page_content := page_content (hd pages) @
                             [(img,
                               \<lparr>opt_x = Num (px * page_width (hd pages) - sigW / 2),
                                opt_y = Num ((1 - py) * page_height (hd pages)
                                  - sigW * (real (img_height img) / real (img_width img)) / 2),
                                opt_width = Num sigW,
                                opt_height =
                                  Num (sigW * (real (img_height img) / real (img_width img))),
                                opt_rotate = signatureRotation s\<rparr>)]\<rparr>
                        # tl pages))\<rparr>]\<rparr>"
proof -
  have idx: "targetPage_index pages (pageNum s) = Some 0"
    using assms(11,12) by (auto simp: targetPage_index_def)
  from assms(11) obtain p ps where ps: "pages = p # ps" by (cases pages) auto
  from handleDownload_pdf_delivers [OF assms(1-10) idx assms(13-15)] ps
  show ?thesis by simp
qed

theorem page_out_of_range_falls_back_witness:
  "int (length sample_pages) < pageNum (onPageNumChange 5 signed_session) \<and>
   PDFDocument_load working_collaborators [37, 80, 68, 70] = Inr sample_pages \<and>
   handleDownload working_collaborators (onPageNumChange 5 signed_session) =
     Some \<lparr>after = (onPageNumChange 5 signed_session)\<lparr>isDownloading := False\<rparr>,
           console_errors = [], alerts = [],
           downloads =
             [\<lparr>dl_filename = ''signed-contract.pdf'',
               dl_content = PdfBlob (sample_serialize
                 [\<lparr>page_width = 612, page_height = 792,
                    page_content =
                      [(sample_image,
                        \<lparr>opt_x = Num (0.85 * 612 - 150 / 2),
                         opt_y = Num ((1 - 0.8) * 792 - 50 / 2),
                         opt_width = Num 150, opt_height = Num 50,
                         opt_rotate = Num 0\<rparr>)]\<rparr>,
                  \<lparr>page_width = 842, page_height = 595, page_content = []\<rparr>])\<rparr>]\<rparr>"
proof -
  let ?s = "onPageNumChange 5 signed_session"
  have f: "docFile ?s = Some sample_file"
    by (simp add: onPageNumChange_def signed_session_def handleSaveSignature_def
        handleFileSelect_def)
  have t: "file_type sample_file = ''application/pdf''" by (simp add: sample_file_def)
  have sg: "signature ?s = Some ''data:image/png;base64,iVBORw0KGgo=''"
    by (simp add: onPageNumChange_def signed_session_def handleSaveSignature_def)
  have ne: "''data:image/png;base64,iVBORw0KGgo='' \<noteq> []" by simp
  have imp: "import_pdf_lib working_collaborators = None"
    by (simp add: working_collaborators_def)
  have buf: "file_arrayBuffer working_collaborators sample_file = Inr [37, 80, 68, 70]"
    by (simp add: working_collaborators_def)
  have load: "PDFDocument_load working_collaborators [37, 80, 68, 70] = Inr sample_pages"
    by (simp add: working_collaborators_def)
  have fetch: "fetch_arrayBuffer working_collaborators ''data:image/png;base64,iVBORw0KGgo=''
                 = Inr [137, 80, 78, 71]"
    by (simp add: working_collaborators_def)
  have emb: "embedPng working_collaborators [137, 80, 78, 71] = Inr sample_image"
    by (simp add: working_collaborators_def)
  have sv: "PDFDocument_save working_collaborators = (\<lambda>d. Inr (sample_serialize d))"
    by (simp add: working_collaborators_def)
  have pg: "sample_pages \<noteq> []" by (simp add: sample_pages_def)
  have far: "int (length sample_pages) < pageNum ?s"
    by (simp add: onPageNumChange_def sample_pages_def)
  then have out: "pageNum ?s < 1 \<or> int (length sample_pages) < pageNum ?s" by simp
  have pos: "signaturePosition ?s = \<lparr>pos_x = Num 0.85, pos_y = Num 0.8\<rparr>"
    by (simp add: onPageNumChange_def signed_session_def handleSaveSignature_def
        handleFileSelect_def initial_app_def)
  have sz: "signatureSize ?s = Num 150"
    by (simp add: onPageNumChange_def signed_session_def handleSaveSignature_def
        handleFileSelect_def initial_app_def)
  have rot: "signatureRotation ?s = Num 0"
    by (simp add: onPageNumChange_def signed_session_def handleSaveSignature_def
        handleFileSelect_def initial_app_def)
  have img: "0 < img_width sample_image" by (simp add: sample_image_def)
  from page_out_of_range_falls_back
    [OF f t sg ne imp buf load fetch emb sv pg out pos sz img]
  have "handleDownload working_collaborators ?s =
     Some \<lparr>after = ?s\<lparr>isDownloading := False\<rparr>,
           console_errors = [], alerts = [],
           downloads =
             [\<lparr>dl_filename = ''signed-contract.pdf'',
               dl_content = PdfBlob (sample_serialize
                 [\<lparr>page_width = 612, page_height = 792,
                    page_content =
                      [(sample_image,
                        \<lparr>opt_x = Num (0.85 * 612 - 150 / 2),
                         opt_y = Num ((1 - 0.8) * 792 - 50 / 2),
                         opt_width = Num 150, opt_height = Num 50,
                         opt_rotate = Num 0\<rparr>)]\<rparr>,
                  \<lparr>page_width = 842, page_height = 595, page_content = []\<rparr>])\<rparr>]\<rparr>"
    by (simp add: rot sample_file_def sample_pages_def sample_image_def)
  with far load show ?thesis by blast
qed

text \<open>
  The claim as stated fails on a document without pages: page 5 is outside the empty
  range, there is no first page, and the export throws on its guard and ends in the
  alert, with no file.
\<close>

theorem pageless_document_fails:
  "PDFDocument_load pageless_collaborators [37, 80, 68, 70] = Inr [] \<and>
   pageNum (onPageNumChange 5 signed_session) = 5 \<and>
   handleDownload pageless_collaborators (onPageNumChange 5 signed_session) =
     Some \<lparr>after = (onPageNumChange 5 signed_session)\<lparr>isDownloading := False\<rparr>,
           console_errors = [''Target page for signature not found.''],
           alerts = [''An error occurred while preparing your download. Please try again.''],
           downloads = []\<rparr>"
  by (simp add: handleDownload_def export_body_def export_pdf_def then_do_def
      targetPage_index_def pageless_collaborators_def working_collaborators_def
      signed_session_def onPageNumChange_def handleSaveSignature_def handleFileSelect_def
      sample_file_def)


text \<open>
  A PDF export hands over a file only when every step succeeded: the library was imported,
  the file read, the document loaded, the signature fetched and embedded, a target page
  found, the signature drawn on it and the document serialised.
\<close>

theorem pdf_file_needs_every_step:
  assumes "docFile s = Some f" and "file_type f = ''application/pdf''"
    and "signature s = Some sg"
    and "handleDownload env s = Some out"
    and "downloads out \<noteq> []"
  shows "import_pdf_lib env = None \<and>
         (\<exists>bytes pages pngBytes img i drawnPage pdfBytes.
            file_arrayBuffer env f = Inr bytes \<and>
            PDFDocument_load env bytes = Inr pages \<and>
            fetch_arrayBuffer env sg = Inr pngBytes \<and>
            embedPng env pngBytes = Inr img \<and>
            targetPage_index pages (pageNum s) = Some i \<and>
            drawImage (pages ! i) img (pdf_draw_options s img (pages ! i)) = Inr drawnPage \<and>
            PDFDocument_save env (pages[i := drawnPage]) = Inr pdfBytes \<and>
            downloads out =
              [\<lparr>dl_filename = ''signed-'' @ file_name f, dl_content = PdfBlob pdfBytes\<rparr>])"
proof -
  from assms obtain d where body: "export_pdf env s f sg = LinkClicked d"
    and out: "downloads out = [d]"
    by (auto simp: handleDownload_def export_body_def split: if_splits completion.splits)
  from body have imp: "import_pdf_lib env = None"
    by (auto simp: export_pdf_def split: option.splits)
  from body imp obtain bytes where bytes: "file_arrayBuffer env f = Inr bytes"
    by (cases "file_arrayBuffer env f") (auto simp: export_pdf_def then_do_def)
  from body imp bytes obtain pages where pages: "PDFDocument_load env bytes = Inr pages"
    by (cases "PDFDocument_load env bytes") (auto simp: export_pdf_def then_do_def)
  from body imp bytes pages obtain pngBytes where png: "fetch_arrayBuffer env sg = Inr pngBytes"
    by (cases "fetch_arrayBuffer env sg") (auto simp: export_pdf_def then_do_def)
  from body imp bytes pages png obtain img where img: "embedPng env pngBytes = Inr img"
    by (cases "embedPng env pngBytes") (auto simp: export_pdf_def then_do_def)
  from body imp bytes pages png img obtain i where i: "targetPage_index pages (pageNum s) = Some i"
    by (cases "targetPage_index pages (pageNum s)") (auto simp: export_pdf_def then_do_def)
  from body imp bytes pages png img i obtain drawnPage where
    dr: "drawImage (pages ! i) img (pdf_draw_options s img (pages ! i)) = Inr drawnPage"
    by (cases "drawImage (pages ! i) img (pdf_draw_options s img (pages ! i))")
       (auto simp: export_pdf_def then_do_def Let_def)
  from body imp bytes pages png img i dr obtain pdfBytes where
    sv: "PDFDocument_save env (pages[i := drawnPage]) = Inr pdfBytes"
    by (cases "PDFDocument_save env (pages[i := drawnPage])")
       (auto simp: export_pdf_def then_do_def Let_def)
  from body imp bytes pages png img i dr sv
  have "d = \<lparr>dl_filename = ''signed-'' @ file_name f, dl_content = PdfBlob pdfBytes\<rparr>"
    by (simp add: export_pdf_def then_do_def Let_def)
  with out imp bytes pages png img i dr sv show ?thesis by blast
qed

theorem pdf_file_needs_every_step_witness:
  "docFile signed_session = Some sample_file \<and>
   downloads \<lparr>after = signed_session\<lparr>isDownloading := False\<rparr>, console_errors = [],
              alerts = [],
              downloads = [\<lparr>dl_filename = ''signed-contract.pdf'',
                            dl_content = PdfBlob [0, 1]\<rparr>]\<rparr> \<noteq> [] \<and>
   handleDownload working_collaborators signed_session =
     Some \<lparr>after = signed_session\<lparr>isDownloading := False\<rparr>, console_errors = [],
           alerts = [],
           downloads = [\<lparr>dl_filename = ''signed-contract.pdf'',
                         dl_content = PdfBlob [0, 1]\<rparr>]\<rparr> \<and>
   import_pdf_lib working_collaborators = None"
proof -
  have f: "docFile signed_session = Some sample_file"
    by (simp add: signed_session_def onPageNumChange_def handleSaveSignature_def
        handleFileSelect_def)
  have t: "file_type sample_file = ''application/pdf''" by (simp add: sample_file_def)
  have sg: "signature signed_session = Some ''data:image/png;base64,iVBORw0KGgo=''"
    by (simp add: signed_session_def onPageNumChange_def handleSaveSignature_def)
  have pn: "pageNum signed_session = 2"
    by (simp add: signed_session_def onPageNumChange_def)
  have pos: "signaturePosition signed_session = \<lparr>pos_x = Num 0.85, pos_y = Num 0.8\<rparr>"
    "signatureSize signed_session = Num 150"
    by (simp_all add: signed_session_def onPageNumChange_def handleSaveSignature_def
        handleFileSelect_def initial_app_def)
  have body: "export_pdf working_collaborators signed_session sample_file
                ''data:image/png;base64,iVBORw0KGgo=''
              = LinkClicked \<lparr>dl_filename = ''signed-contract.pdf'', dl_content = PdfBlob [0, 1]\<rparr>"
    by (simp add: export_pdf_def then_do_def working_collaborators_def pn targetPage_index_def
        Let_def sample_serialize_def sample_pages_def drawImage_def pdf_draw_options_def pos
        minus_jsnum_def sample_image_def sample_file_def)
  have run: "handleDownload working_collaborators signed_session =
     Some \<lparr>after = signed_session\<lparr>isDownloading := False\<rparr>, console_errors = [],
           alerts = [],
           downloads = [\<lparr>dl_filename = ''signed-contract.pdf'',
                         dl_content = PdfBlob [0, 1]\<rparr>]\<rparr>"
    using f t sg body by (simp add: handleDownload_def export_body_def)
  have some: "downloads \<lparr>after = signed_session\<lparr>isDownloading := False\<rparr>, console_errors = [],
              alerts = [],
              downloads = [\<lparr>dl_filename = ''signed-contract.pdf'',
                            dl_content = PdfBlob [0, 1]\<rparr>]\<rparr> \<noteq> []"
    by simp
  from pdf_file_needs_every_step [OF f t sg run some] f some run show ?thesis by blast
qed

section \<open>Export to a raster image\<close>

lemma raster_signature_finite:
  assumes "signaturePosition s = \<lparr>pos_x = Num px, pos_y = Num py\<rparr>"
    and "signatureSize s = Num sz"
    and "signatureRotation s = Num rot"
    and "0 < img_width img"
  shows "raster_signature s img =
           [Save,
            Translate (Num (px * 800)) (Num (py * 600)),
            Rotate (Num (rot * pi / 180)),
            DrawImage img (Num (- (sz * 2) / 2))
                          (Num (- (sz * 2 * (real (img_height img) / real (img_width img))) / 2))
                          (Num (sz * 2))
                          (Num (sz * 2 * (real (img_height img) / real (img_width img)))),
            Restore]"
  using assms
  by (simp add: raster_signature_def canvas_width_def canvas_height_def Let_def mult.commute)

lemma drawn_images_header:
  "drawn_images (raster_header f @ cs) m st = drawn_images cs m st"
  by (simp add: raster_header_def)

lemma drawn_images_footer:
  "drawn_images (raster_footer env) m st = []"
  by (simp add: raster_footer_def)

lemma handleDownload_raster_delivers:
  assumes "docFile s = Some f" and "file_type f \<noteq> ''application/pdf''"
    and "signature s = Some sg" and "sg \<noteq> []"
    and "getContext_2d env"
    and "image_onload env sg = Some img"
    and "canvas_toDataURL env = (\<lambda>cs. Inr (encode cs))"
  shows "handleDownload env s =
           Some \<lparr>after = s\<lparr>isDownloading := False\<rparr>, console_errors = [], alerts = [],
                 downloads =
                   [\<lparr>dl_filename = ''signed-'' @ raster_basename f @ ''.png'',
                     dl_content = PngDataUrl (encode
                       (raster_header f @ raster_signature s img @ raster_footer env))\<rparr>]\<rparr>"
  using assms
  by (simp add: handleDownload_def export_body_def export_raster_def then_do_def)

text \<open>
  Claim C4. For a placement with position \<open>(px, py)\<close>, size \<open>sz\<close> and rotation \<open>rot\<close>
  degrees, the raster export delivers the encoding of a canvas on which, between the
  header and the footer, one image is drawn: of width \<open>sz * 2\<close> and height in the image's
  proportion, with its centre at \<open>(px * 800, py * 600)\<close> on the 800 by 600 canvas (no
  vertical flip), turned about that centre by \<open>rot\<close> degrees clockwise: the point of the
  image at offset \<open>(u, v)\<close> from its centre lands at the centre plus
  \<open>(u cos t - v sin t, u sin t + v cos t)\<close>, \<open>t = rot * pi / 180\<close>, in the canvas's
  coordinates, whose \<open>y\<close> grows downwards.
\<close>

theorem raster_export_draws_signature:
  assumes "docFile s = Some f" and "file_type f \<noteq> ''application/pdf''"
    and "signature s = Some sg" and "sg \<noteq> []"
    and "getContext_2d env"
    and "image_onload env sg = Some img"
    and "canvas_toDataURL env = (\<lambda>cs. Inr (encode cs))"
    and "signaturePosition s = \<lparr>pos_x = Num px, pos_y = Num py\<rparr>"
    and "signatureSize s = Num sz"
    and "signatureRotation s = Num rot"
    and "0 < img_width img"
  shows "\<exists>cmds m dx dy w h.
           handleDownload env s =
             Some \<lparr>after = s\<lparr>isDownloading := False\<rparr>, console_errors = [], alerts = [],
                   downloads =
                     [\<lparr>dl_filename = ''signed-'' @ raster_basename f @ ''.png'',
                       dl_content = PngDataUrl (encode cmds)\<rparr>]\<rparr> \<and>
           cmds = raster_header f @
                  [Save,
                   Translate (Num (px * 800)) (Num (py * 600)),
                   Rotate (Num (rot * pi / 180)),
                   DrawImage img (Num dx) (Num dy) (Num w) (Num h),
                   Restore] @
                  raster_footer env \<and>
           drawn_images cmds ctm_identity [] = [(img, m, dx, dy, w, h)] \<and>
           w = sz * 2 \<and>
           h = w * (real (img_height img) / real (img_width img)) \<and>
           dx = - w / 2 \<and> dy = - h / 2 \<and>
           ctm_apply m (dx + w / 2, dy + h / 2) = (px * 800, py * 600) \<and>
           (\<forall>u v. ctm_apply m (dx + w / 2 + u, dy + h / 2 + v) =
              (px * 800 + (u * cos (rot * pi / 180) - v * sin (rot * pi / 180)),
               py * 600 + (u * sin (rot * pi / 180) + v * cos (rot * pi / 180))))"
proof -
  let ?w = "sz * 2"
  let ?h = "sz * 2 * (real (img_height img) / real (img_width img))"
  let ?cmds = "raster_header f @
                  [Save,
                   Translate (Num (px * 800)) (Num (py * 600)),
                   Rotate (Num (rot * pi / 180)),
                   DrawImage img (Num (- ?w / 2)) (Num (- ?h / 2)) (Num ?w) (Num ?h),
                   Restore] @
                  raster_footer env"
  let ?m = "ctm_rotate (rot * pi / 180) (ctm_translate (px * 800) (py * 600) ctm_identity)"
  have sig: "raster_header f @ raster_signature s img @ raster_footer env = ?cmds"
    using raster_signature_finite [OF assms(8-11)] by simp
  have out: "handleDownload env s =
             Some \<lparr>after = s\<lparr>isDownloading := False\<rparr>, console_errors = [], alerts = [],
                   downloads =
                     [\<lparr>dl_filename = ''signed-'' @ raster_basename f @ ''.png'',
                       dl_content = PngDataUrl (encode ?cmds)\<rparr>]\<rparr>"
    using handleDownload_raster_delivers [OF assms(1-7)] sig by simp
  have drawn: "drawn_images ?cmds ctm_identity [] = [(img, ?m, - ?w / 2, - ?h / 2, ?w, ?h)]"
    by (simp add: drawn_images_header drawn_images_footer)
  have centre: "ctm_apply ?m (- ?w / 2 + ?w / 2, - ?h / 2 + ?h / 2) = (px * 800, py * 600)"
    by (simp add: ctm_identity_def)
  have turn: "\<forall>u v. ctm_apply ?m (- ?w / 2 + ?w / 2 + u, - ?h / 2 + ?h / 2 + v) =
              (px * 800 + (u * cos (rot * pi / 180) - v * sin (rot * pi / 180)),
               py * 600 + (u * sin (rot * pi / 180) + v * cos (rot * pi / 180)))"
    by (simp add: ctm_identity_def algebra_simps)
  from out drawn centre turn show ?thesis by blast
qed

text \<open>
  The spec's scenario: a spreadsheet, the default placement \<open>(0.85, 0.8)\<close>; the mark's
  centre is at \<open>(680, 480)\<close>.
\<close>

theorem raster_export_draws_signature_witness:
  "file_type sample_sheet \<noteq> ''application/pdf'' \<and>
   signaturePosition (handleSaveSignature ''data:image/png;base64,iVBORw0KGgo=''
                        (handleFileSelect sample_sheet initial_app))
     = \<lparr>pos_x = Num 0.85, pos_y = Num 0.8\<rparr> \<and>
   (\<exists>cmds m dx dy w h.
      handleDownload working_collaborators
        (handleSaveSignature ''data:image/png;base64,iVBORw0KGgo=''
           (handleFileSelect sample_sheet initial_app)) =
        Some \<lparr>after = (handleSaveSignature ''data:image/png;base64,iVBORw0KGgo=''
                         (handleFileSelect sample_sheet initial_app))\<lparr>isDownloading := False\<rparr>,
              console_errors = [], alerts = [],
              downloads =
                [\<lparr>dl_filename = ''signed-budget.2026.png'',
                  dl_content = PngDataUrl ''data:image/png;base64,iVBORw0KGgo=''\<rparr>]\<rparr> \<and>
      drawn_images cmds ctm_identity [] = [(sample_image, m, dx, dy, w, h)] \<and>
      w = 300 \<and> h = 100 \<and>
      ctm_apply m (dx + w / 2, dy + h / 2) = (680, 480))"
proof -
  let ?s = "handleSaveSignature ''data:image/png;base64,iVBORw0KGgo=''
              (handleFileSelect sample_sheet initial_app)"
  have f: "docFile ?s = Some sample_sheet"
    by (simp add: handleSaveSignature_def handleFileSelect_def)
  have t: "file_type sample_sheet \<noteq> ''application/pdf''" by (simp add: sample_sheet_def)
  have sg: "signature ?s = Some ''data:image/png;base64,iVBORw0KGgo=''"
    by (simp add: handleSaveSignature_def)
  have ne: "''data:image/png;base64,iVBORw0KGgo='' \<noteq> []" by simp
  have ctx: "getContext_2d working_collaborators" by (simp add: working_collaborators_def)
  have load: "image_onload working_collaborators ''data:image/png;base64,iVBORw0KGgo=''
                = Some sample_image"
    by (simp add: working_collaborators_def)
  have enc: "canvas_toDataURL working_collaborators
               = (\<lambda>cs. Inr ((\<lambda>cs. ''data:image/png;base64,iVBORw0KGgo='') cs))"
    by (simp add: working_collaborators_def)
  have pos: "signaturePosition ?s = \<lparr>pos_x = Num 0.85, pos_y = Num 0.8\<rparr>"
    by (simp add: handleSaveSignature_def handleFileSelect_def initial_app_def)
  have sz: "signatureSize ?s = Num 150"
    by (simp add: handleSaveSignature_def handleFileSelect_def initial_app_def)
  have rot: "signatureRotation ?s = Num 0"
    by (simp add: handleSaveSignature_def handleFileSelect_def initial_app_def)
  have img: "0 < img_width sample_image" by (simp add: sample_image_def)
  have name: "raster_basename sample_sheet = ''budget.2026''"
    by (simp add: raster_basename_def sample_sheet_def js_pop_def)
  from raster_export_draws_signature [OF f t sg ne ctx load enc pos sz rot img]
  obtain cmds m dx dy w h where
    out: "handleDownload working_collaborators ?s =
             Some \<lparr>after = ?s\<lparr>isDownloading := False\<rparr>, console_errors = [], alerts = [],
                   downloads =
                     [\<lparr>dl_filename = ''signed-'' @ raster_basename sample_sheet @ ''.png'',
                       dl_content = PngDataUrl ''data:image/png;base64,iVBORw0KGgo=''\<rparr>]\<rparr>"
    and drawn: "drawn_images cmds ctm_identity [] = [(sample_image, m, dx, dy, w, h)]"
    and w: "w = 150 * 2"
    and h: "h = w * (real (img_height sample_image) / real (img_width sample_image))"
    and c: "ctm_apply m (dx + w / 2, dy + h / 2) = (0.85 * 800, 0.8 * 600)"
    by blast
  from out name have out': "handleDownload working_collaborators ?s =
        Some \<lparr>after = ?s\<lparr>isDownloading := False\<rparr>,
              console_errors = [], alerts = [],
              downloads =
                [\<lparr>dl_filename = ''signed-budget.2026.png'',
                  dl_content = PngDataUrl ''data:image/png;base64,iVBORw0KGgo=''\<rparr>]\<rparr>"
    by simp
  from w h have wh: "w = 300" "h = 100" by (simp_all add: sample_image_def)
  from c have c': "ctm_apply m (dx + w / 2, dy + h / 2) = (680, 480)" by simp
  from out' drawn wh c' have "\<exists>cmds m dx dy w h.
      handleDownload working_collaborators ?s =
        Some \<lparr>after = ?s\<lparr>isDownloading := False\<rparr>,
              console_errors = [], alerts = [],
              downloads =
                [\<lparr>dl_filename = ''signed-budget.2026.png'',
                  dl_content = PngDataUrl ''data:image/png;base64,iVBORw0KGgo=''\<rparr>]\<rparr> \<and>
      drawn_images cmds ctm_identity [] = [(sample_image, m, dx, dy, w, h)] \<and>
      w = 300 \<and> h = 100 \<and>
      ctm_apply m (dx + w / 2, dy + h / 2) = (680, 480)"
    by blast
  with t pos show ?thesis by blast
qed

section \<open>Export failures\<close>







section \<open>Page rendering: which request reaches the surface\<close>

lemma render_inv_initial: "render_inv initial_render"
  by (simp add: render_inv_def initial_render_def only_latest_published_def)

lemma no_fetching_iff:
  "(\<not> list_ex fetching xs) = (\<forall>i < length xs. \<not> fetching (xs ! i))"
  by (simp add: list_ex_iff all_set_conv_all_nth)

lemma cancel_task_frame:
  "renderTaskRef (cancel_task t s) = renderTaskRef s"
  "surface_log (cancel_task t s) = surface_log s"
  "length (invocations (cancel_task t s)) = length (invocations s)"
  by (simp_all add: cancel_task_def)

lemma cancel_task_pc:
  "inv_pc (invocations (cancel_task t s) ! i) = inv_pc (invocations s ! i)"
  by (cases "i = t") (simp_all add: cancel_task_def)

lemma cancel_task_live:
  "i < length (invocations s) \<Longrightarrow>
   live (invocations (cancel_task t s) ! i) = (live (invocations s ! i) \<and> i \<noteq> t)"
  by (cases "i = t") (auto simp: cancel_task_def live_def)

lemma start_renderPage_frame:
  "renderTaskRef (start_renderPage r s) = renderTaskRef s"
  "surface_log (start_renderPage r s) = surface_log s"
  "length (invocations (start_renderPage r s)) = Suc (length (invocations s))"
  by (simp_all add: start_renderPage_def cancel_task_frame Let_def split: option.split)

lemma start_renderPage_old_pc:
  "i < length (invocations s) \<Longrightarrow>
   inv_pc (invocations (start_renderPage r s) ! i) = inv_pc (invocations s ! i)"
  by (simp add: start_renderPage_def cancel_task_frame cancel_task_pc Let_def nth_append
      split: option.split)

lemma start_renderPage_old_live:
  "i < length (invocations s) \<Longrightarrow>
   live (invocations (start_renderPage r s) ! i) =
     (live (invocations s ! i) \<and> renderTaskRef s \<noteq> Some i)"
  by (auto simp add: start_renderPage_def cancel_task_frame Let_def nth_append cancel_task_live
      split: option.split)

lemma start_renderPage_new:
  "fetching (invocations (start_renderPage r s) ! length (invocations s))"
  "\<not> live (invocations (start_renderPage r s) ! length (invocations s))"
  by (simp_all add: start_renderPage_def cancel_task_frame Let_def nth_append fetching_def
      live_def split: option.split)

text \<open>
  A request cancels the registered task before it fetches its page: no task draws once
  \<^verbatim>\<open>renderPage\<close> has been entered, provided the task that drew was the registered one.
\<close>

lemma start_renderPage_inv:
  assumes inv: "render_inv s" and quiet: "\<not> list_ex fetching (invocations s)"
  shows "render_inv (start_renderPage r s)"
proof -
  let ?n = "length (invocations s)"
  let ?s' = "start_renderPage r s"
  have nolive: "\<not> live (invocations ?s' ! i)" if "i < Suc ?n" for i
  proof (cases "i < ?n")
    case True
    with inv show ?thesis by (auto simp: start_renderPage_old_live render_inv_def)
  next
    case False
    with that have "i = ?n" by simp
    then show ?thesis by (simp add: start_renderPage_new)
  qed
  have fetch: "Suc i = Suc ?n" if "i < Suc ?n" "fetching (invocations ?s' ! i)" for i
  proof (cases "i < ?n")
    case True
    with that(2) have "fetching (invocations s ! i)"
      by (simp add: fetching_def start_renderPage_old_pc)
    with quiet True show ?thesis by (simp add: no_fetching_iff)
  next
    case False
    with that show ?thesis by simp
  qed
  from inv have "only_latest_published ?s'"
    by (simp add: render_inv_def only_latest_published_def start_renderPage_frame)
  with nolive fetch show ?thesis by (simp add: render_inv_def start_renderPage_frame)
qed

lemma set_pc_frame:
  "renderTaskRef (set_pc i pc s) = renderTaskRef s"
  "surface_log (set_pc i pc s) = surface_log s"
  "length (invocations (set_pc i pc s)) = length (invocations s)"
  by (simp_all add: set_pc_def)

lemma set_pc_nth:
  "j < length (invocations s) \<Longrightarrow>
   inv_pc (invocations (set_pc i pc s) ! j) = (if j = i then pc else inv_pc (invocations s ! j))"
  "j < length (invocations s) \<Longrightarrow>
   task_cancelled (invocations (set_pc i pc s) ! j) = task_cancelled (invocations s ! j)"
  "j < length (invocations s) \<Longrightarrow>
   task_refused (invocations (set_pc i pc s) ! j) = task_refused (invocations s ! j)"
  by (cases "j = i"; simp add: set_pc_def)+

lemma set_pc_live:
  "j < length (invocations s) \<Longrightarrow>
   live (invocations (set_pc i pc s) ! j) =
     (if j = i then pc = AwaitRender \<and> \<not> task_cancelled (invocations s ! j) \<and>
                    \<not> task_refused (invocations s ! j)
      else live (invocations s ! j))"
  by (simp add: live_def set_pc_nth)

lemma set_pc_fetching:
  "j < length (invocations s) \<Longrightarrow>
   fetching (invocations (set_pc i pc s) ! j) =
     (if j = i then pc = AwaitCancel \<or> pc = AwaitGetPage else fetching (invocations s ! j))"
  by (simp add: fetching_def set_pc_nth)

lemma start_task_frame:
  "renderTaskRef (start_task i s) = renderTaskRef s"
  "surface_log (start_task i s) = surface_log s"
  "length (invocations (start_task i s)) = length (invocations s)"
  by (simp_all add: start_task_def)

lemma start_task_live:
  "j < length (invocations s) \<Longrightarrow> j \<noteq> i \<Longrightarrow>
   live (invocations (start_task i s) ! j) = live (invocations s ! j)"
  by (simp add: start_task_def)

lemma start_task_fetching:
  "j < length (invocations s) \<Longrightarrow>
   fetching (invocations (start_task i s) ! j) = (j \<noteq> i \<and> fetching (invocations s ! j))"
  by (cases "j = i") (simp_all add: start_task_def fetching_def)

lemma set_pc_Returned_inv:
  assumes "render_inv s"
  shows "render_inv (set_pc i Returned s)"
  using assms
  by (simp add: render_inv_def set_pc_frame set_pc_live set_pc_fetching only_latest_published_def)

lemma resume_renderPage_inv:
  assumes inv: "render_inv s"
  shows "render_inv (resume_renderPage i s)"
proof (cases "i < length (invocations s)")
  case False
  with inv show ?thesis by (simp add: resume_renderPage_def)
next
  case range: True
  show ?thesis
  proof (cases "inv_pc (invocations s ! i)")
    case AwaitCancel
    with range inv have "Suc i = length (invocations s)"
      by (simp add: render_inv_def fetching_def)
    with inv range have "render_inv (set_pc i AwaitGetPage s)"
      by (simp add: render_inv_def set_pc_frame set_pc_live set_pc_fetching
          only_latest_published_def)
    with AwaitCancel range show ?thesis by (simp add: resume_renderPage_def)
  next
    case AwaitGetPage
    with range inv have latest: "Suc i = length (invocations s)"
      by (simp add: render_inv_def fetching_def)
    show ?thesis
    proof (cases "canvas_present s")
      case False
      with AwaitGetPage range inv show ?thesis
        by (simp add: resume_renderPage_def set_pc_Returned_inv)
    next
      case True
      let ?s1 = "s\<lparr>canvasSize := Some (inv_req (invocations s ! i)),
                    renderTaskRef := Some i,
                    surface_log := surface_log s @ [(i, length (invocations s))]\<rparr>"
      have eq: "resume_renderPage i s = start_task i ?s1"
        using AwaitGetPage range True by (simp add: resume_renderPage_def)
      have live': "renderTaskRef (start_task i ?s1) = Some j \<and>
                   Suc j = length (invocations (start_task i ?s1))"
        if "j < length (invocations s)" "live (invocations (start_task i ?s1) ! j)" for j
      proof (cases "j = i")
        case True
        with latest show ?thesis by (simp add: start_task_frame)
      next
        case False
        with that have "live (invocations s ! j)" by (simp add: start_task_live)
        with inv that(1) have "Suc j = length (invocations s)" by (simp add: render_inv_def)
        with latest False show ?thesis by simp
      qed
      have fetch': "Suc j = length (invocations (start_task i ?s1))"
        if "j < length (invocations s)" "fetching (invocations (start_task i ?s1) ! j)" for j
        using that inv by (simp add: start_task_frame start_task_fetching render_inv_def)
      have log': "only_latest_published (start_task i ?s1)"
        using inv latest by (simp add: render_inv_def start_task_frame only_latest_published_def)
      from live' fetch' log' show ?thesis unfolding eq
        by (simp add: render_inv_def start_task_frame)
    qed
  next
    case AwaitRender
    show ?thesis
    proof (cases "task_cancelled (invocations s ! i) \<or> task_refused (invocations s ! i)")
      case True
      with AwaitRender range inv show ?thesis
        by (simp add: resume_renderPage_def set_pc_Returned_inv)
    next
      case False
      with AwaitRender have "live (invocations s ! i)" by (simp add: live_def)
      with inv range have reg: "renderTaskRef s = Some i"
        and latest: "Suc i = length (invocations s)"
        by (simp_all add: render_inv_def)
      let ?s1 = "s\<lparr>painted := Some (inv_req (invocations s ! i)),
                    renderTaskRef := None,
                    surface_log := surface_log s @ [(i, length (invocations s))]\<rparr>"
      have eq: "resume_renderPage i s = set_pc i Returned ?s1"
        using AwaitRender range False by (simp add: resume_renderPage_def)
      have nolive: "\<not> live (invocations (set_pc i Returned ?s1) ! j)"
        if "j < length (invocations s)" for j
      proof (cases "j = i")
        case True
        with that show ?thesis by (simp add: set_pc_live)
      next
        case False
        with inv that reg show ?thesis by (auto simp: set_pc_live render_inv_def)
      qed
      have fetch': "Suc j = length (invocations (set_pc i Returned ?s1))"
        if "j < length (invocations s)" "fetching (invocations (set_pc i Returned ?s1) ! j)" for j
        using that inv by (simp add: set_pc_frame set_pc_fetching render_inv_def split: if_splits)
      have log': "only_latest_published (set_pc i Returned ?s1)"
        using inv latest by (simp add: render_inv_def set_pc_frame only_latest_published_def)
      from nolive fetch' log' show ?thesis unfolding eq by (simp add: render_inv_def set_pc_frame)
    qed
  next
    case Returned
    with range inv show ?thesis by (simp add: resume_renderPage_def)
  qed
qed

lemma reject_renderPage_inv:
  assumes "render_inv s"
  shows "render_inv (reject_renderPage i s)"
  using assms
  by (cases "inv_pc (invocations s ! i)") (simp_all add: reject_renderPage_def set_pc_Returned_inv)

lemma render_step_inv:
  "render_inv s \<Longrightarrow> spaced (e # es) s \<Longrightarrow>
   render_inv (render_step e s) \<and> spaced es (render_step e s)"
  by (cases e) (simp_all add: start_renderPage_inv resume_renderPage_inv reject_renderPage_inv)

lemma render_run_inv:
  "render_inv s \<Longrightarrow> spaced es s \<Longrightarrow> render_inv (render_run es s)"
  unfolding render_run_def
proof (induction es arbitrary: s)
  case Nil
  then show ?case by simp
next
  case (Cons e es)
  from render_step_inv [OF Cons.prems] Cons.IH show ?case by simp
qed

lemma filter_live_last:
  "(\<forall>i < length xs. live (xs ! i) \<longrightarrow> Suc i = length xs) \<Longrightarrow> length (filter live xs) \<le> 1"
proof (induction xs rule: rev_induct)
  case Nil
  then show ?case by simp
next
  case (snoc x xs)
  have "filter live xs = []"
  proof -
    have "\<not> live y" if "y \<in> set xs" for y
    proof -
      from that obtain i where i: "i < length xs" "xs ! i = y" by (auto simp: in_set_conv_nth)
      with snoc.prems [rule_format, of i] show ?thesis by (auto simp: nth_append)
    qed
    then show ?thesis by (simp add: filter_empty_conv)
  qed
  then show ?case by simp
qed

lemma render_inv_one_live: "render_inv s \<Longrightarrow> at_most_one_live s"
  unfolding at_most_one_live_def render_inv_def by (blast intro: filter_live_last)

text \<open>
  What the cancellation at the head of \<^verbatim>\<open>renderPage\<close> does achieve. As long as no page or
  zoom request is issued while an earlier call of \<^verbatim>\<open>renderPage\<close> is still waiting for
  \<^verbatim>\<open>cancel()\<close> or \<^verbatim>\<open>getPage()\<close>, at most one render task draws at any time, it is the
  one in \<^verbatim>\<open>renderTaskRef\<close> and belongs to the most recent request, and every write to
  the visible surface (the canvas size, the finished page) is the most recent request's.
\<close>

theorem spaced_requests_publish_latest:
  assumes "spaced es initial_render"
  shows "only_latest_published (render_run es initial_render) \<and>
         at_most_one_live (render_run es initial_render) \<and>
         (\<forall>i < length (invocations (render_run es initial_render)).
            live (invocations (render_run es initial_render) ! i) \<longrightarrow>
              renderTaskRef (render_run es initial_render) = Some i \<and>
              Suc i = length (invocations (render_run es initial_render)))"
proof -
  from render_run_inv [OF render_inv_initial assms]
  have inv: "render_inv (render_run es initial_render)" .
  from inv render_inv_one_live [OF inv] show ?thesis by (simp add: render_inv_def)
qed

theorem spaced_requests_publish_latest_witness:
  "spaced [RenderRequest page_one_request, Resume 0, RenderRequest page_two_request,
           Resume 1, Resume 0, Resume 1, Resume 1] initial_render \<and>
   only_latest_published
     (render_run [RenderRequest page_one_request, Resume 0, RenderRequest page_two_request,
                  Resume 1, Resume 0, Resume 1, Resume 1] initial_render) \<and>
   at_most_one_live
     (render_run [RenderRequest page_one_request, Resume 0, RenderRequest page_two_request,
                  Resume 1, Resume 0, Resume 1, Resume 1] initial_render) \<and>
   painted
     (render_run [RenderRequest page_one_request, Resume 0, RenderRequest page_two_request,
                  Resume 1, Resume 0, Resume 1, Resume 1] initial_render)
     = Some page_two_request \<and>
   surface_log
     (render_run [RenderRequest page_one_request, Resume 0, RenderRequest page_two_request,
                  Resume 1, Resume 0, Resume 1, Resume 1] initial_render)
     = [(0, 1), (1, 2), (1, 2)]"
proof -
  let ?es = "[RenderRequest page_one_request, Resume 0, RenderRequest page_two_request,
              Resume 1, Resume 0, Resume 1, Resume 1]"
  have sp: "spaced ?es initial_render"
    by (simp add: initial_render_def start_renderPage_def resume_renderPage_def set_pc_def
        start_task_def live_def cancel_task_def fetching_def)
  have res: "painted (render_run ?es initial_render) = Some page_two_request"
    "surface_log (render_run ?es initial_render) = [(0, 1), (1, 2), (1, 2)]"
    by (simp_all add: render_run_def initial_render_def start_renderPage_def
        resume_renderPage_def set_pc_def start_task_def live_def cancel_task_def)
  from spaced_requests_publish_latest [OF sp]
  have "only_latest_published (render_run ?es initial_render)"
    and "at_most_one_live (render_run ?es initial_render)"
    by blast+
  with sp res show ?thesis by blast
qed

text \<open>
  Claim C2. The claim fails of the code. \<^verbatim>\<open>renderPage\<close> cancels the registered task
  before it starts, but a task is registered only once its page has been fetched, and no
  request identity is compared when a fetch returns. Page 2 is requested and, while its
  page is being fetched, page 1: nothing is registered yet, so nothing is cancelled.

  \<^item> If page 1 is fetched and rendered to completion first and the fetch of page 2 returns
    then, the older request sizes the canvas and renders over the newer one: the surface
    ends showing page 2 although page 1 was requested last.
  \<^item> If the fetch of page 2 returns while the task of page 1 is still drawing, the older
    request resizes the canvas under it and takes the task's place in
    \<^verbatim>\<open>renderTaskRef\<close>; its own task is refused, so that the task which does draw is no
    longer the registered one and the next request cannot cancel it.
\<close>

theorem stale_render_overwrites_latest:
  "map inv_req
       (invocations
          (render_run [RenderRequest page_two_request, RenderRequest page_one_request,
                       Resume 1, Resume 1, Resume 0, Resume 0] initial_render))
     = [page_two_request, page_one_request] \<and>
   \<not> only_latest_published
       (render_run [RenderRequest page_two_request, RenderRequest page_one_request,
                    Resume 1, Resume 1, Resume 0, Resume 0] initial_render) \<and>
   surface_log
       (render_run [RenderRequest page_two_request, RenderRequest page_one_request,
                    Resume 1, Resume 1, Resume 0, Resume 0] initial_render)
     = [(1, 2), (1, 2), (0, 2), (0, 2)] \<and>
   canvasSize
       (render_run [RenderRequest page_two_request, RenderRequest page_one_request,
                    Resume 1, Resume 1, Resume 0, Resume 0] initial_render)
     = Some page_two_request \<and>
   painted
       (render_run [RenderRequest page_two_request, RenderRequest page_one_request,
                    Resume 1, Resume 1, Resume 0, Resume 0] initial_render)
     = Some page_two_request \<and>
   map task_refused
       (invocations
          (render_run [RenderRequest page_two_request, RenderRequest page_one_request,
                       Resume 1, Resume 1, Resume 0, Resume 0] initial_render))
     = [False, False] \<and>
   canvasSize
       (render_run [RenderRequest page_two_request, RenderRequest page_one_request,
                    Resume 1, Resume 0] initial_render)
     = Some page_two_request \<and>
   renderTaskRef
       (render_run [RenderRequest page_two_request, RenderRequest page_one_request,
                    Resume 1, Resume 0] initial_render)
     = Some 0 \<and>
   map live
       (invocations
          (render_run [RenderRequest page_two_request, RenderRequest page_one_request,
                       Resume 1, Resume 0] initial_render))
     = [False, True] \<and>
   map live
       (invocations
          (render_run [RenderRequest page_two_request, RenderRequest page_one_request,
                       Resume 1, Resume 0, RenderRequest page_two_request] initial_render))
     = [False, True, False]"
  by (simp add: render_run_def initial_render_def start_renderPage_def resume_renderPage_def
      set_pc_def start_task_def cancel_task_def only_latest_published_def live_def)


end
